theory Spec2Isabelle
  imports Complex_Main
begin

section \<open>The numbers of the program\<close>

text \<open>
  Every coordinate, angle and matrix entry of the renderer is a C++ \<open>double\<close>. The model
  keeps the three special values of the format apart from the finite ones, because the
  program divides without looking at the divisor: a finite value is a real number, and
  the arithmetic on finite values is exact (no rounding and no overflow to infinity are
  modelled, and there is one zero, the positive one). Whatever a theorem below says about
  finite values is therefore a statement about the formulas of the code, up to rounding.
\<close>

datatype dbl = Fin real | PInf | NInf | NaN

fun is_fin :: "dbl \<Rightarrow> bool" where
  "is_fin (Fin r) = True"
| "is_fin PInf = False"
| "is_fin NInf = False"
| "is_fin NaN = False"

fun dneg :: "dbl \<Rightarrow> dbl" where
  "dneg (Fin a) = Fin (- a)"
| "dneg PInf = NInf"
| "dneg NInf = PInf"
| "dneg NaN = NaN"

fun dadd :: "dbl \<Rightarrow> dbl \<Rightarrow> dbl" where
  "dadd (Fin a) (Fin b) = Fin (a + b)"
| "dadd NaN y = NaN"
| "dadd x NaN = NaN"
| "dadd PInf NInf = NaN"
| "dadd NInf PInf = NaN"
| "dadd PInf y = PInf"
| "dadd NInf y = NInf"
| "dadd x PInf = PInf"
| "dadd x NInf = NInf"

definition dsub :: "dbl \<Rightarrow> dbl \<Rightarrow> dbl" where
  "dsub x y = dadd x (dneg y)"

text \<open>The sign of an infinity times a finite factor; times zero it is not a number.\<close>

fun signed_inf :: "bool \<Rightarrow> dbl" where
  "signed_inf True = PInf"
| "signed_inf False = NInf"

fun dmul :: "dbl \<Rightarrow> dbl \<Rightarrow> dbl" where
  "dmul (Fin a) (Fin b) = Fin (a * b)"
| "dmul NaN y = NaN"
| "dmul x NaN = NaN"
| "dmul PInf PInf = PInf"
| "dmul PInf NInf = NInf"
| "dmul NInf PInf = NInf"
| "dmul NInf NInf = PInf"
| "dmul PInf (Fin b) = (if b = 0 then NaN else signed_inf (0 < b))"
| "dmul NInf (Fin b) = (if b = 0 then NaN else signed_inf (b < 0))"
| "dmul (Fin a) PInf = (if a = 0 then NaN else signed_inf (0 < a))"
| "dmul (Fin a) NInf = (if a = 0 then NaN else signed_inf (a < 0))"

fun ddiv :: "dbl \<Rightarrow> dbl \<Rightarrow> dbl" where
  "ddiv (Fin a) (Fin b) =
     (if b \<noteq> 0 then Fin (a / b) else if a = 0 then NaN else signed_inf (0 < a))"
| "ddiv NaN y = NaN"
| "ddiv x NaN = NaN"
| "ddiv (Fin a) PInf = Fin 0"
| "ddiv (Fin a) NInf = Fin 0"
| "ddiv PInf (Fin b) = signed_inf (0 \<le> b)"
| "ddiv NInf (Fin b) = signed_inf (b < 0)"
| "ddiv PInf y = NaN"
| "ddiv NInf y = NaN"

fun dabs :: "dbl \<Rightarrow> dbl" where
  "dabs (Fin a) = Fin \<bar>a\<bar>"
| "dabs PInf = PInf"
| "dabs NInf = PInf"
| "dabs NaN = NaN"

fun dsqrt :: "dbl \<Rightarrow> dbl" where
  "dsqrt (Fin a) = (if a < 0 then NaN else Fin (sqrt a))"
| "dsqrt PInf = PInf"
| "dsqrt NInf = NaN"
| "dsqrt NaN = NaN"

text \<open>\<open>std::pow(x, 2)\<close>.\<close>

fun dpow2 :: "dbl \<Rightarrow> dbl" where
  "dpow2 (Fin a) = Fin (a * a)"
| "dpow2 PInf = PInf"
| "dpow2 NInf = PInf"
| "dpow2 NaN = NaN"

fun dcos :: "dbl \<Rightarrow> dbl" where
  "dcos (Fin a) = Fin (cos a)"
| "dcos x = NaN"

fun dsin :: "dbl \<Rightarrow> dbl" where
  "dsin (Fin a) = Fin (sin a)"
| "dsin x = NaN"

text \<open>An \<open>int\<close> stored into a \<open>double\<close>: exact.\<close>

definition of_cint :: "int \<Rightarrow> dbl" where
  "of_cint n = Fin (of_int n)"

text \<open>
  The unary minus of a 32-bit \<open>int\<close>. The one value without a negation,
  \<open>- 2 ^ 31\<close>, is its own negation on the two's complement machines the program is
  built for.
\<close>

definition INT_MIN :: int where
  "INT_MIN = - 2147483648"

definition int_neg :: "int \<Rightarrow> int" where
  "int_neg x = (if x = INT_MIN then INT_MIN else - x)"

text \<open>The macro of ViewContext.h: a decimal fraction, not the number \<open>pi\<close>.\<close>

definition PI :: real where
  "PI = 3.14159265359"

section \<open>The matrix primitive\<close>

text \<open>Modelled from the spec: the one error of the matrix class (matrix.h is missing), raised
  by a product whose operands do not fit. ViewContext.cpp raises nothing of its own.\<close>

datatype error = DimensionError

type_synonym matrix = "dbl list list"

text \<open>Modelled from the spec: the matrix class (matrix.h, matrix.cpp) is not among the
  sources. A matrix is a dense container of its rows; this is its row count.\<close>

definition nrows :: "matrix \<Rightarrow> nat" where
  "nrows m = length m"

text \<open>Modelled from the spec: the column count of a matrix (matrix.h is missing).\<close>

definition ncols :: "matrix \<Rightarrow> nat" where
  "ncols m = (case m of [] \<Rightarrow> 0 | r # _ \<Rightarrow> length r)"

text \<open>Modelled from the spec: \<open>matrix(rows, cols)\<close> constructs a zero-filled matrix of the
  given row and column count (matrix.cpp is missing).\<close>

definition matrix_new :: "nat \<Rightarrow> nat \<Rightarrow> matrix" where
  "matrix_new r c = replicate r (replicate c (Fin 0))"

text \<open>Modelled from the spec: \<open>matrix::identity(n)\<close> produces an identity matrix of size
  \<open>n\<close> (matrix.cpp is missing).\<close>

definition identity :: "nat \<Rightarrow> matrix" where
  "identity n = map (\<lambda>i. map (\<lambda>j. if i = j then Fin 1 else Fin 0) [0..<n]) [0..<n]"

text \<open>Modelled from the spec: reading the element at (row, col), \<open>m[i][j]\<close> as a value
  (matrix.cpp is missing; the spec does not say what an index out of range does).\<close>

definition mget :: "matrix \<Rightarrow> nat \<Rightarrow> nat \<Rightarrow> dbl" where
  "mget m i j = m ! i ! j"

text \<open>Modelled from the spec: writing the element at (row, col), \<open>m[i][j] = v\<close>
  (matrix.cpp is missing).\<close>

definition mput :: "matrix \<Rightarrow> nat \<Rightarrow> nat \<Rightarrow> dbl \<Rightarrow> matrix" where
  "mput m i j v = m[i := (m ! i)[j := v]]"

text \<open>Modelled from the spec: \<open>clear()\<close> sets all elements to zero in place
  (matrix.cpp is missing).\<close>

definition clear :: "matrix \<Rightarrow> matrix" where
  "clear m = map (map (\<lambda>_. Fin 0)) m"

text \<open>Modelled from the spec: the sum of products one element of a product is, accumulated
  from zero (matrix.cpp is missing).\<close>

definition dsum :: "dbl list \<Rightarrow> dbl" where
  "dsum xs = foldl dadd (Fin 0) xs"

text \<open>Modelled from the spec: \<open>operator*\<close> multiplies two matrices producing a new matrix,
  failing with a DimensionError when the inner dimensions mismatch (matrix.cpp is
  missing).\<close>

definition mmul :: "matrix \<Rightarrow> matrix \<Rightarrow> error + matrix" where
  "mmul a b =
     (if ncols a \<noteq> nrows b then Inl DimensionError
      else Inr (map (\<lambda>i. map (\<lambda>j. dsum (map (\<lambda>k. dmul (mget a i k) (mget b k j)) [0..<ncols a]))
                               [0..<ncols b])
                    [0..<nrows a]))"

text \<open>A product whose left factor is itself the result of a product: the exception of
  the inner product leaves the whole expression.\<close>

definition mmul_then :: "error + matrix \<Rightarrow> matrix \<Rightarrow> error + matrix" where
  "mmul_then r b = (case r of Inl e \<Rightarrow> Inl e | Inr a \<Rightarrow> mmul a b)"

section \<open>ViewContext\<close>

text \<open>The members of the class (ViewContext.h). The members \<open>mi\<close> and \<open>li\<close> are declared
  there and never written or read, and are left out.\<close>

record ViewContext =
  toModelCoordinates :: matrix
  toDeviceCoordinates :: matrix
  changeBasisMatrix :: matrix
  hOrbitMatrix :: matrix
  vOrbitMatrix :: matrix
  translateToOrigin :: matrix
  translateFromOrigin :: matrix
  p0 :: matrix
  pref :: matrix
  zf :: dbl
  hdeg :: dbl
  vdeg :: dbl

subsection \<open>The private helpers\<close>

definition crossProduct3X1 :: "matrix \<Rightarrow> matrix \<Rightarrow> matrix" where
  "crossProduct3X1 a b =
     (let result = matrix_new 3 1;
          result = mput result 0 0
            (dsub (dmul (mget a 1 0) (mget b 2 0)) (dmul (mget a 2 0) (mget b 1 0)));
          result = mput result 1 0
            (dneg (dsub (dmul (mget a 0 0) (mget b 2 0)) (dmul (mget a 2 0) (mget b 0 0))));
          result = mput result 2 0
            (dsub (dmul (mget a 0 0) (mget b 1 0)) (dmul (mget a 1 0) (mget b 0 0)))
      in result)"

definition magnitude :: "matrix \<Rightarrow> dbl" where
  "magnitude a =
     dsqrt (dadd (dadd (dpow2 (mget a 0 0)) (dpow2 (mget a 1 0))) (dpow2 (mget a 2 0)))"

definition normalize_vec :: "matrix \<Rightarrow> matrix" where
  "normalize_vec a =
     (let norm = magnitude a;
          result = matrix_new 3 1;
          result = mput result 0 0 (ddiv (mget a 0 0) norm);
          result = mput result 1 0 (ddiv (mget a 1 0) norm);
          result = mput result 2 0 (ddiv (mget a 2 0) norm)
      in result)"

definition dot :: "matrix \<Rightarrow> matrix \<Rightarrow> dbl" where
  "dot a b =
     dadd (dadd (dmul (mget a 0 0) (mget b 0 0)) (dmul (mget a 1 0) (mget b 1 0)))
          (dmul (mget a 2 0) (mget b 2 0))"

text \<open>The loop of resetTransformMatricies, \<open>i\<close> from 0 to 3, writes the diagonal of the four
  matrices in one pass.\<close>

definition resetTransformMatricies :: "ViewContext \<Rightarrow> ViewContext" where
  "resetTransformMatricies s =
     foldl (\<lambda>s i. s\<lparr> toModelCoordinates := mput (toModelCoordinates s) i i (Fin 1),
                     toDeviceCoordinates := mput (toDeviceCoordinates s) i i (Fin 1),
                     hOrbitMatrix := mput (hOrbitMatrix s) i i (Fin 1),
                     vOrbitMatrix := mput (vOrbitMatrix s) i i (Fin 1) \<rparr>)
       (s\<lparr> toModelCoordinates := clear (toModelCoordinates s),
           toDeviceCoordinates := clear (toDeviceCoordinates s),
           hOrbitMatrix := clear (hOrbitMatrix s),
           vOrbitMatrix := clear (vOrbitMatrix s) \<rparr>)
       [0..<4]"

definition createTransformMatricies :: "ViewContext \<Rightarrow> ViewContext" where
  "createTransformMatricies s =
     resetTransformMatricies
       (s\<lparr> toModelCoordinates := matrix_new 4 4,
           toDeviceCoordinates := matrix_new 4 4,
           changeBasisMatrix := matrix_new 4 4,
           translateToOrigin := matrix_new 4 4,
           translateFromOrigin := matrix_new 4 4,
           hOrbitMatrix := matrix_new 4 4,
           vOrbitMatrix := matrix_new 4 4 \<rparr>)"

definition transformBasis :: "ViewContext \<Rightarrow> ViewContext" where
  "transformBasis s =
     (let N = matrix_new 3 1; V = matrix_new 3 1;
          N = mput N 0 0 (mget (p0 s) 0 0);
          N = mput N 1 0 (mget (p0 s) 1 0);
          N = mput N 2 0 (mget (p0 s) 2 0);
          V = mput V 1 0 (Fin 1);
          L = crossProduct3X1 V N;
          l = normalize_vec L;
          n = normalize_vec N;
          m = crossProduct3X1 n l;
          c = changeBasisMatrix s;
          c = mput c 0 0 (mget l 0 0);
          c = mput c 0 1 (mget l 1 0);
          c = mput c 0 2 (mget l 2 0);
          c = mput c 0 3 (dmul (Fin (- 1)) (dot l (p0 s)));
          c = mput c 1 0 (mget m 0 0);
          c = mput c 1 1 (mget m 1 0);
          c = mput c 1 2 (mget m 2 0);
          c = mput c 1 3 (dmul (Fin (- 1)) (dot m (p0 s)));
          c = mput c 2 0 (mget n 0 0);
          c = mput c 2 1 (mget n 1 0);
          c = mput c 2 2 (mget n 2 0);
          c = mput c 2 3 (dmul (Fin (- 1)) (dot n (p0 s)));
          c = mput c 3 0 (Fin 0);
          c = mput c 3 1 (Fin 0);
          c = mput c 3 2 (Fin 0);
          c = mput c 3 3 (Fin 1)
      in s\<lparr> changeBasisMatrix := c \<rparr>)"

definition originToCenter :: "dbl \<Rightarrow> dbl \<Rightarrow> ViewContext \<Rightarrow> error + ViewContext" where
  "originToCenter x y s =
     (let s = s\<lparr> translateToOrigin := mput (translateToOrigin s) 0 3 (dneg x) \<rparr>;
          s = s\<lparr> translateToOrigin := mput (translateToOrigin s) 1 3 (dneg y) \<rparr>;
          s = s\<lparr> translateFromOrigin := mput (translateFromOrigin s) 0 3 x \<rparr>;
          s = s\<lparr> translateFromOrigin := mput (translateFromOrigin s) 1 3 y \<rparr>;
          s = foldl (\<lambda>s i. s\<lparr> translateFromOrigin := mput (translateFromOrigin s) i i (Fin 1),
                              translateToOrigin := mput (translateToOrigin s) i i (Fin 1) \<rparr>)
                s [0..<4]
      in case mmul (translateFromOrigin s) (toDeviceCoordinates s) of
           Inl e \<Rightarrow> Inl e
         | Inr d \<Rightarrow> Inr (s\<lparr> toDeviceCoordinates := d \<rparr>))"

subsection \<open>The constructor\<close>

definition ViewContext_ctor ::
  "int \<Rightarrow> int \<Rightarrow> int \<Rightarrow> int \<Rightarrow> int \<Rightarrow> dbl \<Rightarrow> error + ViewContext" where
  "ViewContext_ctor x0 y0 z0 x y zf' =
     (let P = matrix_new 3 1; R = matrix_new 3 1;
          P = mput P 0 0 (of_cint x0); R = mput R 0 0 (Fin 0);
          P = mput P 1 0 (of_cint y0); R = mput R 1 0 (Fin 0);
          P = mput P 2 0 (of_cint z0); R = mput R 2 0 (Fin 0);
          s = \<lparr> toModelCoordinates = [], toDeviceCoordinates = [], changeBasisMatrix = [],
                hOrbitMatrix = [], vOrbitMatrix = [], translateToOrigin = [],
                translateFromOrigin = [], p0 = P, pref = R,
                zf = zf', hdeg = Fin 0, vdeg = Fin 0 \<rparr>;
          s = createTransformMatricies s;
          s = transformBasis s
      in originToCenter (of_cint x) (of_cint y) s)"

subsection \<open>Conversions\<close>

text \<open>The two loops of project: the columns \<open>i\<close> from 0 to 2 outside, the rows \<open>j\<close> from 0 to
  1 inside, each writing one element from its old value and the depth of its column.\<close>

definition project_cell :: "dbl \<Rightarrow> matrix \<Rightarrow> nat \<Rightarrow> nat \<Rightarrow> matrix" where
  "project_cell f a i j =
     mput a j i (ddiv (dmul f (mget a j i)) (dadd (dabs (mget a 2 i)) f))"

definition project :: "dbl \<Rightarrow> matrix \<Rightarrow> matrix" where
  "project f a = foldl (\<lambda>a i. foldl (\<lambda>a j. project_cell f a i j) a [0..<2]) a [0..<3]"

definition deviceToModel :: "ViewContext \<Rightarrow> matrix \<Rightarrow> error + matrix" where
  "deviceToModel s shapeVerticies = mmul (changeBasisMatrix s) shapeVerticies"

text \<open>A product whose right factor is the result of the statement before it.\<close>

definition mmul_into :: "matrix \<Rightarrow> error + matrix \<Rightarrow> error + matrix" where
  "mmul_into a r = (case r of Inl e \<Rightarrow> Inl e | Inr b \<Rightarrow> mmul a b)"

definition modelToDevice :: "ViewContext \<Rightarrow> matrix \<Rightarrow> error + matrix" where
  "modelToDevice s shapeVerticies =
     (let d = mmul (hOrbitMatrix s) shapeVerticies;
          d = mmul_into (vOrbitMatrix s) d;
          d = mmul_into (changeBasisMatrix s) d;
          d = (case d of Inl e \<Rightarrow> Inl e | Inr a \<Rightarrow> Inr (project (zf s) a))
      in mmul_into (toDeviceCoordinates s) d)"

subsection \<open>The mutators\<close>

text \<open>The two assignments every screen edit ends with: the edit between the two pivot
  translations in front of toDeviceCoordinates, its undo between them behind
  toModelCoordinates.\<close>

definition apply_edit :: "matrix \<Rightarrow> matrix \<Rightarrow> ViewContext \<Rightarrow> error + ViewContext" where
  "apply_edit edit undo s =
     (case mmul_then (mmul_then (mmul (translateFromOrigin s) edit) (translateToOrigin s))
             (toDeviceCoordinates s) of
        Inl e \<Rightarrow> Inl e
      | Inr d \<Rightarrow>
         (case mmul_then (mmul_then (mmul (toModelCoordinates s) (translateFromOrigin s)) undo)
                 (translateToOrigin s) of
            Inl e \<Rightarrow> Inl e
          | Inr m \<Rightarrow> Inr (s\<lparr> toDeviceCoordinates := d, toModelCoordinates := m \<rparr>)))"

definition scale :: "dbl \<Rightarrow> dbl \<Rightarrow> ViewContext \<Rightarrow> error + ViewContext" where
  "scale a b s =
     (let sc = matrix_new 4 4; undoScale = matrix_new 4 4;
          sc = mput sc 0 0 a;
          sc = mput sc 1 1 b;
          sc = mput sc 2 2 (Fin 1);
          sc = mput sc 3 3 (Fin 1);
          undoScale = mput undoScale 0 0 (ddiv (Fin 1) a);
          undoScale = mput undoScale 1 1 (ddiv (Fin 1) b);
          undoScale = mput undoScale 2 2 (Fin 1);
          undoScale = mput undoScale 3 3 (Fin 1)
      in apply_edit sc undoScale s)"

definition rotate_vc :: "dbl \<Rightarrow> ViewContext \<Rightarrow> error + ViewContext" where
  "rotate_vc theta_deg s =
     (let rot = matrix_new 4 4; undoRotate = matrix_new 4 4;
          theta = dmul theta_deg (ddiv (Fin PI) (Fin 180));
          rot = mput rot 0 0 (dcos theta);
          rot = mput rot 0 1 (dmul (Fin (- 1)) (dsin theta));
          rot = mput rot 1 0 (dsin theta);
          rot = mput rot 1 1 (dcos theta);
          rot = mput rot 2 2 (Fin 1);
          rot = mput rot 3 3 (Fin 1);
          undoRotate = mput undoRotate 0 0 (dcos (dneg theta));
          undoRotate = mput undoRotate 0 1 (dmul (Fin (- 1)) (dsin (dneg theta)));
          undoRotate = mput undoRotate 1 0 (dsin (dneg theta));
          undoRotate = mput undoRotate 1 1 (dcos (dneg theta));
          undoRotate = mput undoRotate 2 2 (Fin 1);
          undoRotate = mput undoRotate 3 3 (Fin 1)
      in apply_edit rot undoRotate s)"

definition translate :: "int \<Rightarrow> int \<Rightarrow> ViewContext \<Rightarrow> error + ViewContext" where
  "translate x y s =
     (let tr = identity 4; undoTranslate = identity 4;
          tr = mput tr 0 3 (of_cint x);
          tr = mput tr 1 3 (of_cint y);
          undoTranslate = mput undoTranslate 0 3 (of_cint (int_neg x));
          undoTranslate = mput undoTranslate 1 3 (of_cint (int_neg y))
      in apply_edit tr undoTranslate s)"

definition hOrbit :: "dbl \<Rightarrow> ViewContext \<Rightarrow> ViewContext" where
  "hOrbit degrees s =
     (let rot = identity 4;
          theta = dmul degrees (ddiv (Fin PI) (Fin 180));
          h = dadd (hdeg s) theta;
          rot = mput rot 0 0 (dcos h);
          rot = mput rot 0 2 (dmul (Fin 1) (dsin h));
          rot = mput rot 2 0 (dmul (Fin (- 1)) (dsin h));
          rot = mput rot 2 2 (dmul (Fin 1) (dcos h))
      in s\<lparr> hdeg := h, hOrbitMatrix := rot \<rparr>)"

definition vOrbit :: "dbl \<Rightarrow> ViewContext \<Rightarrow> error + ViewContext" where
  "vOrbit degrees s =
     (let theta = dmul degrees (ddiv (Fin PI) (Fin 180));
          v = dadd (vdeg s) theta;
          yToPo = matrix_new 3 1;
          yToPo = mput yToPo 0 0 (mget (p0 s) 0 0);
          yToPo = mput yToPo 1 0 (Fin 0);
          yToPo = mput yToPo 2 0 (mget (p0 s) 2 0);
          y = matrix_new 3 1;
          y = mput y 1 0 (Fin 1);
          axisOfRot = crossProduct3X1 yToPo y;
          len = dsqrt (dadd (dpow2 (mget axisOfRot 0 0)) (dpow2 (mget axisOfRot 2 0)));
          rotateToZ = identity 4;
          rotateToZ = mput rotateToZ 0 0 (ddiv (mget axisOfRot 2 0) len);
          rotateToZ = mput rotateToZ 0 2 (ddiv (dmul (Fin (- 1)) (mget axisOfRot 0 0)) len);
          rotateToZ = mput rotateToZ 2 0 (ddiv (mget axisOfRot 0 0) len);
          rotateToZ = mput rotateToZ 2 2 (ddiv (mget axisOfRot 2 0) len);
          rotateFromZ = identity 4;
          rotateFromZ = mput rotateFromZ 0 0 (ddiv (mget axisOfRot 2 0) len);
          rotateFromZ = mput rotateFromZ 0 2 (ddiv (mget axisOfRot 0 0) len);
          rotateFromZ = mput rotateFromZ 2 0 (ddiv (mget axisOfRot 0 0) len);
          rotateFromZ = mput rotateFromZ 2 2 (ddiv (dmul (Fin (- 1)) (mget axisOfRot 2 0)) len);
          rotateZ = identity 4;
          rotateZ = mput rotateZ 0 0 (dcos v);
          rotateZ = mput rotateZ 0 1 (dmul (Fin (- 1)) (dsin v));
          rotateZ = mput rotateZ 1 0 (dsin v);
          rotateZ = mput rotateZ 1 1 (dcos v)
      in case mmul_then (mmul rotateToZ rotateZ) rotateFromZ of
           Inl e \<Rightarrow> Inl e
         | Inr zOrbit \<Rightarrow> Inr (s\<lparr> vdeg := v, vOrbitMatrix := zOrbit \<rparr>))"

definition reset :: "ViewContext \<Rightarrow> error + ViewContext" where
  "reset s =
     (let s = resetTransformMatricies s
      in case mmul (translateFromOrigin s) (toDeviceCoordinates s) of
           Inl e \<Rightarrow> Inl e
         | Inr d \<Rightarrow> Inr (s\<lparr> toDeviceCoordinates := d \<rparr>))"

definition adjustFOV :: "dbl \<Rightarrow> ViewContext \<Rightarrow> ViewContext" where
  "adjustFOV fov s = s\<lparr> zf := dadd (zf s) fov \<rparr>"

section \<open>Calls, and what the constructor establishes\<close>

text \<open>The public mutators as values, so that a sequence of calls is a list.\<close>

datatype call =
    Scale dbl dbl
  | Rotate dbl
  | Translate int int
  | HOrbit dbl
  | VOrbit dbl
  | AdjustFOV dbl
  | Reset

fun perform :: "call \<Rightarrow> ViewContext \<Rightarrow> error + ViewContext" where
  "perform (Scale a b) s = scale a b s"
| "perform (Rotate t) s = rotate_vc t s"
| "perform (Translate x y) s = translate x y s"
| "perform (HOrbit d) s = Inr (hOrbit d s)"
| "perform (VOrbit d) s = vOrbit d s"
| "perform (AdjustFOV d) s = Inr (adjustFOV d s)"
| "perform Reset s = reset s"

fun perform_all :: "call list \<Rightarrow> ViewContext \<Rightarrow> error + ViewContext" where
  "perform_all [] s = Inr s"
| "perform_all (c # cs) s =
     (case perform c s of Inl e \<Rightarrow> Inl e | Inr s' \<Rightarrow> perform_all cs s')"

text \<open>The context after construction and a sequence of calls.\<close>

definition constructed_then ::
  "int \<Rightarrow> int \<Rightarrow> int \<Rightarrow> int \<Rightarrow> int \<Rightarrow> dbl \<Rightarrow> call list \<Rightarrow> error + ViewContext" where
  "constructed_then x0 y0 z0 x y f cs =
     (case ViewContext_ctor x0 y0 z0 x y f of Inl e \<Rightarrow> Inl e | Inr s \<Rightarrow> perform_all cs s)"


definition dim44 :: "matrix \<Rightarrow> bool" where
  "dim44 m = (length m = 4 \<and> list_all (\<lambda>r. length r = 4) m)"

definition fin44 :: "matrix \<Rightarrow> bool" where
  "fin44 m = (length m = 4 \<and> list_all (\<lambda>r. length r = 4 \<and> list_all is_fin r) m)"

text \<open>The translation by \<open>(x, y)\<close> in homogeneous coordinates.\<close>

definition translation :: "dbl \<Rightarrow> dbl \<Rightarrow> matrix" where
  "translation x y = mput (mput (identity 4) 0 3 x) 1 3 y"

text \<open>The pivot pair as originToCenter leaves it: the translations by the screen centre and
  back, the centre finite.\<close>

definition pivot_pair :: "ViewContext \<Rightarrow> bool" where
  "pivot_pair s =
     (let x = mget (translateFromOrigin s) 0 3; y = mget (translateFromOrigin s) 1 3
      in is_fin x \<and> is_fin y \<and> translateFromOrigin s = translation x y \<and>
         translateToOrigin s = translation (dneg x) (dneg y))"

text \<open>What holds of every context the constructor returns and every mutator keeps, whatever
  its arguments: the pivot pair, and the shape of the four matrices that reset rewrites.\<close>

definition well_formed :: "ViewContext \<Rightarrow> bool" where
  "well_formed s =
     (pivot_pair s \<and> dim44 (toModelCoordinates s) \<and> dim44 (toDeviceCoordinates s) \<and>
      dim44 (hOrbitMatrix s) \<and> dim44 (vOrbitMatrix s) \<and> dim44 (changeBasisMatrix s))"

text \<open>A vertex batch: one column of homogeneous coordinates (x, y, z, w) for each of the
  three vertices of a triangle, the shape \<open>matrix(4,3)\<close> that modelToDevice allocates and
  project walks.\<close>

definition batch43 :: "matrix \<Rightarrow> bool" where
  "batch43 m = (length m = 4 \<and> list_all (\<lambda>r. length r = 3) m)"

text \<open>The scaling by \<open>(a, b)\<close> in the screen plane.\<close>

definition scaling :: "dbl \<Rightarrow> dbl \<Rightarrow> matrix" where
  "scaling a b =
     [[a, Fin 0, Fin 0, Fin 0],
      [Fin 0, b, Fin 0, Fin 0],
      [Fin 0, Fin 0, Fin 1, Fin 0],
      [Fin 0, Fin 0, Fin 0, Fin 1]]"


text \<open>The context the driver constructs (main.cpp): the eye at (50, 50, 0), an 800 pixel wide
  window and the field of view 1000.\<close>

definition driver_context :: "error + ViewContext" where
  "driver_context = ViewContext_ctor 50 50 0 400 400 (Fin 1000)"

section \<open>Matrices of finite entries\<close>

text \<open>A 4 by 4 matrix of real numbers, row by row, and the product of two. A matrix of the
  program whose entries are all finite is the image of one, and there the product of the
  program is this product.\<close>

datatype rmat = Rmat real real real real real real real real real real real real real real real real

fun emb :: "rmat \<Rightarrow> matrix" where
  "emb (Rmat a00 a01 a02 a03 a10 a11 a12 a13 a20 a21 a22 a23 a30 a31 a32 a33) =
     [[Fin a00, Fin a01, Fin a02, Fin a03],
      [Fin a10, Fin a11, Fin a12, Fin a13],
      [Fin a20, Fin a21, Fin a22, Fin a23],
      [Fin a30, Fin a31, Fin a32, Fin a33]]"

fun rmul :: "rmat \<Rightarrow> rmat \<Rightarrow> rmat" where
  "rmul (Rmat a00 a01 a02 a03 a10 a11 a12 a13 a20 a21 a22 a23 a30 a31 a32 a33)
        (Rmat b00 b01 b02 b03 b10 b11 b12 b13 b20 b21 b22 b23 b30 b31 b32 b33) =
     Rmat
        (a00 * b00 + a01 * b10 + a02 * b20 + a03 * b30)
        (a00 * b01 + a01 * b11 + a02 * b21 + a03 * b31)
        (a00 * b02 + a01 * b12 + a02 * b22 + a03 * b32)
        (a00 * b03 + a01 * b13 + a02 * b23 + a03 * b33)
        (a10 * b00 + a11 * b10 + a12 * b20 + a13 * b30)
        (a10 * b01 + a11 * b11 + a12 * b21 + a13 * b31)
        (a10 * b02 + a11 * b12 + a12 * b22 + a13 * b32)
        (a10 * b03 + a11 * b13 + a12 * b23 + a13 * b33)
        (a20 * b00 + a21 * b10 + a22 * b20 + a23 * b30)
        (a20 * b01 + a21 * b11 + a22 * b21 + a23 * b31)
        (a20 * b02 + a21 * b12 + a22 * b22 + a23 * b32)
        (a20 * b03 + a21 * b13 + a22 * b23 + a23 * b33)
        (a30 * b00 + a31 * b10 + a32 * b20 + a33 * b30)
        (a30 * b01 + a31 * b11 + a32 * b21 + a33 * b31)
        (a30 * b02 + a31 * b12 + a32 * b22 + a33 * b32)
        (a30 * b03 + a31 * b13 + a32 * b23 + a33 * b33)"

definition rid :: rmat where
  "rid = Rmat 1 0 0 0  0 1 0 0  0 0 1 0  0 0 0 1"

definition rtrans :: "real \<Rightarrow> real \<Rightarrow> rmat" where
  "rtrans x y = Rmat 1 0 0 x  0 1 0 y  0 0 1 0  0 0 0 1"



text \<open>The change of basis the constructor computes for the eye (50, 50, 0).\<close>

definition driver_basis_matrix :: rmat where
  "driver_basis_matrix = Rmat 0 0 (- 1) 0
             (- (50 / sqrt 5000)) (50 / sqrt 5000) 0 0
             (50 / sqrt 5000) (50 / sqrt 5000) 0 (- (5000 / sqrt 5000))
             0 0 0 1"



text \<open>The batch whose every coordinate is not-a-number.\<close>

definition all_NaN :: matrix where
  "all_NaN = [[NaN, NaN, NaN], [NaN, NaN, NaN], [NaN, NaN, NaN], [NaN, NaN, NaN]]"

text \<open>The determinant of the upper left 3 by 3 block, the linear part of the map: 1 for every
  rotation.\<close>

fun det3 :: "rmat \<Rightarrow> real" where
  "det3 (Rmat a00 a01 a02 a03 a10 a11 a12 a13 a20 a21 a22 a23 a30 a31 a32 a33) =
     a00 * (a11 * a22 - a12 * a21) - a01 * (a10 * a22 - a12 * a20) + a02 * (a10 * a21 - a11 * a20)"

section \<open>Basic facts\<close>

lemma upt4: "[0..<4] = [0,1,2,3]" by (simp add: upt_rec)
lemma upt3: "[0..<3] = [0,1,2]" by (simp add: upt_rec)
lemma upt2: "[0..<2] = [0,1]" by (simp add: upt_rec)

lemma identity_4: "identity 4 =
  [[Fin 1, Fin 0, Fin 0, Fin 0],[Fin 0, Fin 1, Fin 0, Fin 0],[Fin 0, Fin 0, Fin 1, Fin 0],[Fin 0, Fin 0, Fin 0, Fin 1]]"
  by (simp add: identity_def upt4)

lemma matrix_new_44: "matrix_new 4 4 =
  [[Fin 0, Fin 0, Fin 0, Fin 0],[Fin 0, Fin 0, Fin 0, Fin 0],[Fin 0, Fin 0, Fin 0, Fin 0],[Fin 0, Fin 0, Fin 0, Fin 0]]"
  by (simp add: matrix_new_def eval_nat_numeral)

lemma matrix_new_31: "matrix_new 3 (Suc 0) = [[Fin 0],[Fin 0],[Fin 0]]"
  by (simp add: matrix_new_def eval_nat_numeral)

lemma dim44_nrows: "dim44 m \<Longrightarrow> nrows m = 4"
  by (simp add: dim44_def nrows_def)

lemma dim44_ncols: "dim44 m \<Longrightarrow> ncols m = 4"
  by (cases m) (simp_all add: dim44_def ncols_def)

lemma dim44_identity: "dim44 (identity 4)"
  by (simp add: identity_4 dim44_def)

lemma dim44_matrix_new: "dim44 (matrix_new 4 4)"
  by (simp add: matrix_new_44 dim44_def)

lemma dim44_mput:
  assumes "dim44 m"
  shows "dim44 (mput m i j v)"
proof (cases "i < length m")
  case True
  with assms show ?thesis
    by (auto simp: dim44_def mput_def list_all_length nth_list_update)
next
  case False
  then have "m[i := (m ! i)[j := v]] = m"
    by (simp add: list_update_beyond)
  with assms show ?thesis
    by (simp add: mput_def)
qed

lemma dim44_clear: "dim44 m \<Longrightarrow> dim44 (clear m)"
  by (simp add: dim44_def clear_def list_all_iff)

lemma mmul_dim44: "dim44 a \<Longrightarrow> dim44 b \<Longrightarrow> \<exists>c. mmul a b = Inr c \<and> dim44 c"
  by (simp add: mmul_def dim44_ncols dim44_nrows) (simp add: dim44_def upt4)

lemma fin44_dim44: "fin44 m \<Longrightarrow> dim44 m"
  by (simp add: fin44_def dim44_def list_all_iff)

lemma len4: "length xs = 4 \<longleftrightarrow> (\<exists>a b c d. xs = [a,b,c,d])"
  by (auto simp: length_Suc_conv eval_nat_numeral)

lemma fin_ex: "is_fin x \<longleftrightarrow> (\<exists>r. x = Fin r)"
  by (cases x) simp_all

lemma fin44_emb: "fin44 (emb F)"
  by (cases F) (simp add: fin44_def)

lemma fin44_obtain: "fin44 m \<Longrightarrow> \<exists>F. m = emb F"
proof -
  assume a: "fin44 m"
  then obtain r0 r1 r2 r3 where m: "m = [r0, r1, r2, r3]"
    by (auto simp: fin44_def len4)
  from a m obtain a00 a01 a02 a03 where r0: "r0 = [Fin a00, Fin a01, Fin a02, Fin a03]"
    by (auto simp: fin44_def len4 fin_ex)
  from a m obtain a10 a11 a12 a13 where r1: "r1 = [Fin a10, Fin a11, Fin a12, Fin a13]"
    by (auto simp: fin44_def len4 fin_ex)
  from a m obtain a20 a21 a22 a23 where r2: "r2 = [Fin a20, Fin a21, Fin a22, Fin a23]"
    by (auto simp: fin44_def len4 fin_ex)
  from a m obtain a30 a31 a32 a33 where r3: "r3 = [Fin a30, Fin a31, Fin a32, Fin a33]"
    by (auto simp: fin44_def len4 fin_ex)
  have "m = emb (Rmat a00 a01 a02 a03 a10 a11 a12 a13 a20 a21 a22 a23 a30 a31 a32 a33)"
    by (simp add: m r0 r1 r2 r3)
  then show ?thesis ..
qed

lemma mmul_emb: "mmul (emb A) (emb B) = Inr (emb (rmul A B))"
  by (cases A; cases B) (simp add: mmul_def ncols_def nrows_def upt4 dsum_def mget_def)



lemma rmul_rid_right: "rmul A rid = A"
  by (cases A) (simp add: rid_def)


lemma identity_emb: "identity 4 = emb rid"
  by (simp add: identity_4 rid_def)







lemma dim44_obtain:
  assumes "dim44 m"
  obtains a00 a01 a02 a03 a10 a11 a12 a13 a20 a21 a22 a23 a30 a31 a32 a33 where
    "m = [[a00, a01, a02, a03], [a10, a11, a12, a13], [a20, a21, a22, a23], [a30, a31, a32, a33]]"
proof -
  from assms obtain r0 r1 r2 r3 where m: "m = [r0, r1, r2, r3]"
    by (auto simp: dim44_def len4)
  from assms m obtain a00 a01 a02 a03 where r0: "r0 = [a00, a01, a02, a03]"
    by (auto simp: dim44_def len4)
  from assms m obtain a10 a11 a12 a13 where r1: "r1 = [a10, a11, a12, a13]"
    by (auto simp: dim44_def len4)
  from assms m obtain a20 a21 a22 a23 where r2: "r2 = [a20, a21, a22, a23]"
    by (auto simp: dim44_def len4)
  from assms m obtain a30 a31 a32 a33 where r3: "r3 = [a30, a31, a32, a33]"
    by (auto simp: dim44_def len4)
  show ?thesis
    by (rule that [of a00 a01 a02 a03 a10 a11 a12 a13 a20 a21 a22 a23 a30 a31 a32 a33])
       (simp add: m r0 r1 r2 r3)
qed

lemma clear_diag:
  assumes "dim44 m"
  shows "mput (mput (mput (mput (clear m) 0 0 (Fin 1)) (Suc 0) (Suc 0) (Fin 1)) 2 2 (Fin 1)) 3 3 (Fin 1) = identity 4"
proof -
  from assms obtain a00 a01 a02 a03 a10 a11 a12 a13 a20 a21 a22 a23 a30 a31 a32 a33 where
    "m = [[a00, a01, a02, a03], [a10, a11, a12, a13], [a20, a21, a22, a23], [a30, a31, a32, a33]]"
    by (rule dim44_obtain)
  then show ?thesis
    by (simp add: clear_def mput_def identity_4)
qed

lemma resetTransformMatricies_eq:
  assumes "dim44 (toModelCoordinates s)" "dim44 (toDeviceCoordinates s)"
    "dim44 (hOrbitMatrix s)" "dim44 (vOrbitMatrix s)"
  shows "resetTransformMatricies s =
    s\<lparr> toModelCoordinates := identity 4, toDeviceCoordinates := identity 4,
       hOrbitMatrix := identity 4, vOrbitMatrix := identity 4 \<rparr>"
  using assms by (simp add: resetTransformMatricies_def upt4 clear_diag)

lemma mmul_identity_right:
  assumes "fin44 m"
  shows "mmul m (identity 4) = Inr m"
proof -
  from assms obtain F where "m = emb F" by (auto dest: fin44_obtain)
  then show ?thesis by (simp add: identity_emb mmul_emb rmul_rid_right)
qed

lemma translation_emb: "translation (Fin x) (Fin y) = emb (rtrans x y)"
  by (simp add: translation_def identity_4 mput_def rtrans_def)

lemma pivot_pair_obtain:
  assumes "pivot_pair s"
  obtains x y where "translateFromOrigin s = emb (rtrans x y)"
    "translateToOrigin s = emb (rtrans (- x) (- y))"
  using assms unfolding pivot_pair_def Let_def
  by (auto simp: fin_ex translation_emb)

lemma reset_eq:
  assumes "well_formed s"
  shows "reset s = Inr (s\<lparr> toModelCoordinates := identity 4,
      toDeviceCoordinates := translateFromOrigin s,
      hOrbitMatrix := identity 4, vOrbitMatrix := identity 4 \<rparr>)"
proof -
  from assms obtain x y where tf: "translateFromOrigin s = emb (rtrans x y)"
    by (auto simp: well_formed_def elim: pivot_pair_obtain)
  have "mmul (translateFromOrigin s) (identity 4) = Inr (translateFromOrigin s)"
    by (rule mmul_identity_right) (simp add: tf fin44_emb)
  with assms show ?thesis
    by (simp add: reset_def well_formed_def resetTransformMatricies_eq)
qed

lemma transformBasis_frame:
  "toModelCoordinates (transformBasis s) = toModelCoordinates s"
  "toDeviceCoordinates (transformBasis s) = toDeviceCoordinates s"
  "hOrbitMatrix (transformBasis s) = hOrbitMatrix s"
  "vOrbitMatrix (transformBasis s) = vOrbitMatrix s"
  "translateToOrigin (transformBasis s) = translateToOrigin s"
  "translateFromOrigin (transformBasis s) = translateFromOrigin s"
  "p0 (transformBasis s) = p0 s"
  "pref (transformBasis s) = pref s"
  "zf (transformBasis s) = zf s"
  "hdeg (transformBasis s) = hdeg s"
  "vdeg (transformBasis s) = vdeg s"
  by (simp_all add: transformBasis_def Let_def)

lemma transformBasis_dim44:
  "dim44 (changeBasisMatrix s) \<Longrightarrow> dim44 (changeBasisMatrix (transformBasis s))"
  by (simp add: transformBasis_def Let_def dim44_mput)

lemma createTransformMatricies_eq:
  "createTransformMatricies s =
     s\<lparr> toModelCoordinates := identity 4, toDeviceCoordinates := identity 4,
        changeBasisMatrix := matrix_new 4 4, hOrbitMatrix := identity 4,
        vOrbitMatrix := identity 4, translateToOrigin := matrix_new 4 4,
        translateFromOrigin := matrix_new 4 4 \<rparr>"
  by (simp add: createTransformMatricies_def resetTransformMatricies_eq dim44_matrix_new)

lemma originToCenter_eq:
  assumes "translateToOrigin s = matrix_new 4 4" "translateFromOrigin s = matrix_new 4 4"
    "toDeviceCoordinates s = identity 4"
  shows "originToCenter (Fin x) (Fin y) s =
    Inr (s\<lparr> translateToOrigin := emb (rtrans (- x) (- y)),
           translateFromOrigin := emb (rtrans x y),
           toDeviceCoordinates := emb (rtrans x y) \<rparr>)"
proof -
  have a: "mput (mput (mput (mput (mput (mput (matrix_new 4 4) 0 3 (Fin x)) (Suc 0) 3 (Fin y))
      0 0 (Fin 1)) (Suc 0) (Suc 0) (Fin 1)) 2 2 (Fin 1)) 3 3 (Fin 1) = emb (rtrans x y)" for x y
    by (simp add: matrix_new_44 mput_def rtrans_def)
  have b: "mmul (emb (rtrans x y)) (identity 4) = Inr (emb (rtrans x y))"
    by (simp add: identity_emb mmul_emb rmul_rid_right)
  show ?thesis
    using assms by (simp add: originToCenter_def Let_def upt4 a b)
qed

lemma transformBasis_update:
  assumes "dim44 (changeBasisMatrix s)"
  shows "\<exists>c. dim44 c \<and> transformBasis s = s\<lparr> changeBasisMatrix := c \<rparr>"
proof (intro exI conjI)
  show "dim44 (changeBasisMatrix (transformBasis s))"
    using assms by (rule transformBasis_dim44)
  show "transformBasis s = s\<lparr> changeBasisMatrix := changeBasisMatrix (transformBasis s) \<rparr>"
    by (simp add: transformBasis_def Let_def)
qed

lemma ViewContext_ctor_eq:
  "\<exists>c. dim44 c \<and> ViewContext_ctor x0 y0 z0 x y f =
     Inr \<lparr> toModelCoordinates = emb rid,
           toDeviceCoordinates = emb (rtrans (of_int x) (of_int y)),
           changeBasisMatrix = c,
           hOrbitMatrix = emb rid, vOrbitMatrix = emb rid,
           translateToOrigin = emb (rtrans (- of_int x) (- of_int y)),
           translateFromOrigin = emb (rtrans (of_int x) (of_int y)),
           p0 = [[of_cint x0], [of_cint y0], [of_cint z0]],
           pref = [[Fin 0], [Fin 0], [Fin 0]],
           zf = f, hdeg = Fin 0, vdeg = Fin 0 \<rparr>"
proof -
  define s where "s = createTransformMatricies
     \<lparr> toModelCoordinates = [], toDeviceCoordinates = [], changeBasisMatrix = [],
       hOrbitMatrix = [], vOrbitMatrix = [], translateToOrigin = [],
       translateFromOrigin = [],
       p0 = mput (mput (mput (matrix_new 3 1) 0 0 (of_cint x0)) 1 0 (of_cint y0)) 2 0 (of_cint z0),
       pref = mput (mput (mput (matrix_new 3 1) 0 0 (Fin 0)) 1 0 (Fin 0)) 2 0 (Fin 0),
       zf = f, hdeg = Fin 0, vdeg = Fin 0 \<rparr>"
  have "dim44 (changeBasisMatrix s)"
    by (simp add: s_def createTransformMatricies_eq dim44_matrix_new)
  then obtain c where c: "dim44 c" "transformBasis s = s\<lparr> changeBasisMatrix := c \<rparr>"
    using transformBasis_update by blast
  have "ViewContext_ctor x0 y0 z0 x y f = originToCenter (of_cint x) (of_cint y) (transformBasis s)"
    by (simp add: ViewContext_ctor_def Let_def s_def)
  also have "\<dots> = Inr \<lparr> toModelCoordinates = emb rid,
           toDeviceCoordinates = emb (rtrans (of_int x) (of_int y)),
           changeBasisMatrix = c,
           hOrbitMatrix = emb rid, vOrbitMatrix = emb rid,
           translateToOrigin = emb (rtrans (- of_int x) (- of_int y)),
           translateFromOrigin = emb (rtrans (of_int x) (of_int y)),
           p0 = [[of_cint x0], [of_cint y0], [of_cint z0]],
           pref = [[Fin 0], [Fin 0], [Fin 0]],
           zf = f, hdeg = Fin 0, vdeg = Fin 0 \<rparr>"
    unfolding c(2)
    by (simp add: s_def createTransformMatricies_eq of_cint_def originToCenter_eq
        identity_emb matrix_new_31 mput_def)
  finally show ?thesis using c(1) by blast
qed

lemma dim44_emb: "dim44 (emb F)"
  by (rule fin44_dim44) (rule fin44_emb)

lemma pivot_pair_emb:
  assumes "translateFromOrigin s = emb (rtrans x y)"
    "translateToOrigin s = emb (rtrans (- x) (- y))"
  shows "pivot_pair s"
  using assms by (simp add: pivot_pair_def Let_def translation_emb mget_def rtrans_def)

lemma ctor_well_formed:
  "\<exists>s. ViewContext_ctor x0 y0 z0 x y f = Inr s \<and> well_formed s"
proof -
  obtain c where c: "dim44 c" and
    "ViewContext_ctor x0 y0 z0 x y f =
     Inr \<lparr> toModelCoordinates = emb rid,
           toDeviceCoordinates = emb (rtrans (of_int x) (of_int y)),
           changeBasisMatrix = c,
           hOrbitMatrix = emb rid, vOrbitMatrix = emb rid,
           translateToOrigin = emb (rtrans (- of_int x) (- of_int y)),
           translateFromOrigin = emb (rtrans (of_int x) (of_int y)),
           p0 = [[of_cint x0], [of_cint y0], [of_cint z0]],
           pref = [[Fin 0], [Fin 0], [Fin 0]],
           zf = f, hdeg = Fin 0, vdeg = Fin 0 \<rparr>"
    using ViewContext_ctor_eq [of x0 y0 z0 x y f] by blast
  then show ?thesis
    by (simp add: well_formed_def dim44_emb pivot_pair_emb)
qed

lemma apply_edit_dims:
  assumes "well_formed s" "dim44 e" "dim44 u"
  shows "\<exists>d m. apply_edit e u s = Inr (s\<lparr> toDeviceCoordinates := d, toModelCoordinates := m \<rparr>)
           \<and> dim44 d \<and> dim44 m"
proof -
  from assms(1) have tf: "dim44 (translateFromOrigin s)" and tt: "dim44 (translateToOrigin s)"
    by (auto simp: well_formed_def dim44_emb elim!: pivot_pair_obtain)
  from assms(1) have f: "dim44 (toDeviceCoordinates s)" and g: "dim44 (toModelCoordinates s)"
    by (simp_all add: well_formed_def)
  obtain d1 where d1: "mmul (translateFromOrigin s) e = Inr d1" "dim44 d1"
    using mmul_dim44 [OF tf assms(2)] by blast
  obtain d2 where d2: "mmul d1 (translateToOrigin s) = Inr d2" "dim44 d2"
    using mmul_dim44 [OF d1(2) tt] by blast
  obtain d3 where d3: "mmul d2 (toDeviceCoordinates s) = Inr d3" "dim44 d3"
    using mmul_dim44 [OF d2(2) f] by blast
  obtain m1 where m1: "mmul (toModelCoordinates s) (translateFromOrigin s) = Inr m1" "dim44 m1"
    using mmul_dim44 [OF g tf] by blast
  obtain m2 where m2: "mmul m1 u = Inr m2" "dim44 m2"
    using mmul_dim44 [OF m1(2) assms(3)] by blast
  obtain m3 where m3: "mmul m2 (translateToOrigin s) = Inr m3" "dim44 m3"
    using mmul_dim44 [OF m2(2) tt] by blast
  show ?thesis
    by (rule exI [of _ d3], rule exI [of _ m3])
       (simp add: apply_edit_def mmul_then_def d1 d2 d3 m1 m2 m3)
qed

lemma well_formed_edit:
  assumes "well_formed s" "dim44 d" "dim44 m"
  shows "well_formed (s\<lparr> toDeviceCoordinates := d, toModelCoordinates := m \<rparr>)"
  using assms by (simp add: well_formed_def pivot_pair_def)

lemma apply_edit_well_formed:
  assumes "well_formed s" "dim44 e" "dim44 u"
  shows "\<exists>s'. apply_edit e u s = Inr s' \<and> well_formed s'"
  using apply_edit_dims [OF assms] well_formed_edit [OF assms(1)] by auto

lemma scale_well_formed:
  assumes "well_formed s"
  shows "\<exists>s'. scale a b s = Inr s' \<and> well_formed s'"
  unfolding scale_def Let_def
  by (rule apply_edit_well_formed [OF assms]) (simp_all add: dim44_mput dim44_matrix_new)

lemma rotate_well_formed:
  assumes "well_formed s"
  shows "\<exists>s'. rotate_vc t s = Inr s' \<and> well_formed s'"
  unfolding rotate_vc_def Let_def
  by (rule apply_edit_well_formed [OF assms]) (simp_all add: dim44_mput dim44_matrix_new)

lemma translate_well_formed:
  assumes "well_formed s"
  shows "\<exists>s'. translate x y s = Inr s' \<and> well_formed s'"
  unfolding translate_def Let_def
  by (rule apply_edit_well_formed [OF assms]) (simp_all add: dim44_mput dim44_identity)

lemma hOrbit_well_formed:
  assumes "well_formed s"
  shows "well_formed (hOrbit d s)"
  using assms by (simp add: hOrbit_def Let_def well_formed_def pivot_pair_def dim44_mput dim44_identity)

lemma product3_returns:
  assumes "dim44 a" "dim44 b" "dim44 c"
  shows "\<exists>z. dim44 z \<and>
    (case mmul_then (mmul a b) c of Inl e \<Rightarrow> Inl e | Inr zo \<Rightarrow> Inr (f zo)) = Inr (f z)"
proof -
  obtain d1 where d1: "mmul a b = Inr d1" "dim44 d1"
    using mmul_dim44 [OF assms(1,2)] by blast
  obtain d2 where d2: "mmul d1 c = Inr d2" "dim44 d2"
    using mmul_dim44 [OF d1(2) assms(3)] by blast
  show ?thesis
    by (rule exI [of _ d2]) (simp add: d1 d2 mmul_then_def)
qed

lemma vOrbit_returns:
  "\<exists>z. dim44 z \<and> vOrbit d s = Inr (s\<lparr> vdeg := dadd (vdeg s) (dmul d (ddiv (Fin PI) (Fin 180))),
      vOrbitMatrix := z \<rparr>)"
  unfolding vOrbit_def Let_def
  by (rule product3_returns) (simp_all add: dim44_mput dim44_identity)

lemma vOrbit_well_formed:
  assumes "well_formed s"
  shows "\<exists>s'. vOrbit d s = Inr s' \<and> well_formed s'"
proof -
  obtain z where "dim44 z" "vOrbit d s = Inr (s\<lparr> vdeg := dadd (vdeg s) (dmul d (ddiv (Fin PI) (Fin 180))),
      vOrbitMatrix := z \<rparr>)"
    using vOrbit_returns by blast
  with assms show ?thesis
    by (simp add: well_formed_def pivot_pair_def)
qed

lemma well_formed_pivot_dims:
  assumes "well_formed s"
  shows "dim44 (translateFromOrigin s)" "dim44 (translateToOrigin s)"
  using assms by (auto simp: well_formed_def dim44_emb elim!: pivot_pair_obtain)

lemma reset_well_formed:
  assumes "well_formed s"
  shows "\<exists>s'. reset s = Inr s' \<and> well_formed s'"
  using assms well_formed_pivot_dims [OF assms]
  by (simp add: reset_eq) (simp add: well_formed_def pivot_pair_def dim44_identity)

lemma perform_well_formed:
  assumes "well_formed s"
  shows "\<exists>s'. perform c s = Inr s' \<and> well_formed s'"
proof (cases c)
  case (Scale a b)
  then show ?thesis using scale_well_formed [OF assms] by simp
next
  case (Rotate t)
  then show ?thesis using rotate_well_formed [OF assms] by simp
next
  case (Translate x y)
  then show ?thesis using translate_well_formed [OF assms] by simp
next
  case (HOrbit d)
  then show ?thesis using hOrbit_well_formed [OF assms] by simp
next
  case (VOrbit d)
  then show ?thesis using vOrbit_well_formed [OF assms] by simp
next
  case (AdjustFOV d)
  then show ?thesis using assms by (simp add: adjustFOV_def well_formed_def pivot_pair_def)
next
  case Reset
  then show ?thesis using reset_well_formed [OF assms] by simp
qed

lemma perform_all_well_formed:
  "well_formed s \<Longrightarrow> \<exists>s'. perform_all cs s = Inr s' \<and> well_formed s'"
proof (induction cs arbitrary: s)
  case Nil
  then show ?case by simp
next
  case (Cons c cs)
  from perform_well_formed [OF Cons.prems, of c]
  obtain s1 where "perform c s = Inr s1" "well_formed s1" by blast
  with Cons.IH [of s1] show ?case by simp
qed

lemma constructed_then_well_formed:
  "\<exists>s. constructed_then x0 y0 z0 x y f cs = Inr s \<and> well_formed s"
proof -
  obtain s0 where "ViewContext_ctor x0 y0 z0 x y f = Inr s0" "well_formed s0"
    using ctor_well_formed by blast
  with perform_all_well_formed [of s0 cs] show ?thesis
    by (simp add: constructed_then_def)
qed

section \<open>The claims\<close>

subsection \<open>What the orbits, the field of view and reset leave alone\<close>

text \<open>
  C10. Every call to hOrbit, vOrbit or adjustFOV leaves toDeviceCoordinates (the forward
  transform) and toModelCoordinates (the inverse transform) as they were; vOrbit, the one
  of the three that multiplies matrices, always returns.
\<close>

theorem orbit_and_fov_keep_edit_pair:
  "toDeviceCoordinates (hOrbit d s) = toDeviceCoordinates s \<and>
   toModelCoordinates (hOrbit d s) = toModelCoordinates s \<and>
   toDeviceCoordinates (adjustFOV d s) = toDeviceCoordinates s \<and>
   toModelCoordinates (adjustFOV d s) = toModelCoordinates s \<and>
   (\<exists>s'. vOrbit d s = Inr s' \<and>
      toDeviceCoordinates s' = toDeviceCoordinates s \<and>
      toModelCoordinates s' = toModelCoordinates s)"
proof -
  obtain z where "vOrbit d s =
      Inr (s\<lparr> vdeg := dadd (vdeg s) (dmul d (ddiv (Fin PI) (Fin 180))), vOrbitMatrix := z \<rparr>)"
    using vOrbit_returns by blast
  then show ?thesis
    by (simp add: hOrbit_def adjustFOV_def Let_def)
qed

text \<open>
  C9. On a well-formed context (every context the constructor returns and the mutators
  keep) reset returns; afterwards toModelCoordinates, hOrbitMatrix and vOrbitMatrix are the
  identity, toDeviceCoordinates is translateFromOrigin times the identity, that is the
  centring translation alone, and the cumulative angles hdeg and vdeg are what they were.
\<close>

theorem reset_restores_matrices_keeps_angles:
  assumes "well_formed s"
  shows "\<exists>s'. reset s = Inr s' \<and>
      toModelCoordinates s' = identity 4 \<and>
      hOrbitMatrix s' = identity 4 \<and>
      vOrbitMatrix s' = identity 4 \<and>
      mmul (translateFromOrigin s) (identity 4) = Inr (toDeviceCoordinates s') \<and>
      toDeviceCoordinates s' = translateFromOrigin s \<and>
      hdeg s' = hdeg s \<and> vdeg s' = vdeg s \<and>
      zf s' = zf s \<and> p0 s' = p0 s \<and> changeBasisMatrix s' = changeBasisMatrix s"
proof -
  from assms obtain x y where tf: "translateFromOrigin s = emb (rtrans x y)"
    by (auto simp: well_formed_def elim: pivot_pair_obtain)
  have "mmul (translateFromOrigin s) (identity 4) = Inr (translateFromOrigin s)"
    by (rule mmul_identity_right) (simp add: tf fin44_emb)
  then show ?thesis
    by (simp add: reset_eq [OF assms])
qed

lemma ctor_then_hOrbit:
  "\<exists>s. constructed_then 50 50 0 400 400 (Fin 1000) [HOrbit (Fin 90)] = Inr s \<and> well_formed s
     \<and> hdeg s = Fin (PI / 2)"
proof -
  obtain c where "dim44 c" and e: "ViewContext_ctor 50 50 0 400 400 (Fin 1000) =
     Inr \<lparr> toModelCoordinates = emb rid,
           toDeviceCoordinates = emb (rtrans (of_int 400) (of_int 400)),
           changeBasisMatrix = c,
           hOrbitMatrix = emb rid, vOrbitMatrix = emb rid,
           translateToOrigin = emb (rtrans (- of_int 400) (- of_int 400)),
           translateFromOrigin = emb (rtrans (of_int 400) (of_int 400)),
           p0 = [[of_cint 50], [of_cint 50], [of_cint 0]],
           pref = [[Fin 0], [Fin 0], [Fin 0]],
           zf = Fin 1000, hdeg = Fin 0, vdeg = Fin 0 \<rparr>"
    using ViewContext_ctor_eq [of 50 50 0 400 400 "Fin 1000"] by blast
  obtain s where s: "constructed_then 50 50 0 400 400 (Fin 1000) [HOrbit (Fin 90)] = Inr s" "well_formed s"
    using constructed_then_well_formed by blast
  from s(1) have "hdeg s = Fin (PI / 2)"
    by (auto simp: constructed_then_def e hOrbit_def Let_def)
  with s show ?thesis by blast
qed

theorem reset_witness:
  "\<exists>s. constructed_then 50 50 0 400 400 (Fin 1000) [HOrbit (Fin 90)] = Inr s \<and> well_formed s \<and>
     hdeg s = Fin (PI / 2) \<and>
     (\<exists>s'. reset s = Inr s' \<and>
      toModelCoordinates s' = identity 4 \<and>
      hOrbitMatrix s' = identity 4 \<and>
      vOrbitMatrix s' = identity 4 \<and>
      mmul (translateFromOrigin s) (identity 4) = Inr (toDeviceCoordinates s') \<and>
      toDeviceCoordinates s' = translateFromOrigin s \<and>
      hdeg s' = hdeg s \<and> vdeg s' = vdeg s \<and>
      zf s' = zf s \<and> p0 s' = p0 s \<and> changeBasisMatrix s' = changeBasisMatrix s)"
proof -
  obtain s where s: "constructed_then 50 50 0 400 400 (Fin 1000) [HOrbit (Fin 90)] = Inr s"
    "well_formed s" "hdeg s = Fin (PI / 2)"
    using ctor_then_hOrbit by blast
  from reset_restores_matrices_keeps_angles [OF s(2)] s show ?thesis
    by blast
qed

subsection \<open>Projection\<close>

lemma len3: "length xs = 3 \<longleftrightarrow> (\<exists>a b c. xs = [a,b,c])"
  by (auto simp: length_Suc_conv eval_nat_numeral)

lemma batch43_obtain:
  assumes "batch43 m"
  obtains a00 a01 a02 a10 a11 a12 a20 a21 a22 a30 a31 a32 where
    "m = [[a00, a01, a02], [a10, a11, a12], [a20, a21, a22], [a30, a31, a32]]"
proof -
  from assms obtain r0 r1 r2 r3 where m: "m = [r0, r1, r2, r3]"
    by (auto simp: batch43_def len4)
  from assms m obtain a00 a01 a02 where r0: "r0 = [a00, a01, a02]"
    by (auto simp: batch43_def len3)
  from assms m obtain a10 a11 a12 where r1: "r1 = [a10, a11, a12]"
    by (auto simp: batch43_def len3)
  from assms m obtain a20 a21 a22 where r2: "r2 = [a20, a21, a22]"
    by (auto simp: batch43_def len3)
  from assms m obtain a30 a31 a32 where r3: "r3 = [a30, a31, a32]"
    by (auto simp: batch43_def len3)
  show ?thesis
    by (rule that [of a00 a01 a02 a10 a11 a12 a20 a21 a22 a30 a31 a32])
       (simp add: m r0 r1 r2 r3)
qed

lemma less3: "i < (3::nat) \<longleftrightarrow> i = 0 \<or> i = 1 \<or> i = 2"
  by auto

lemma project_explicit:
  "project f [[a00, a01, a02], [a10, a11, a12], [a20, a21, a22], [a30, a31, a32]] =
    [[ddiv (dmul f a00) (dadd (dabs a20) f), ddiv (dmul f a01) (dadd (dabs a21) f),
      ddiv (dmul f a02) (dadd (dabs a22) f)],
     [ddiv (dmul f a10) (dadd (dabs a20) f), ddiv (dmul f a11) (dadd (dabs a21) f),
      ddiv (dmul f a12) (dadd (dabs a22) f)],
     [a20, a21, a22], [a30, a31, a32]]"
  by (simp add: project_def project_cell_def upt3 upt2 mput_def mget_def)

lemma project_column:
  assumes "batch43 a" "i < 3"
  shows "batch43 (project f a) \<and>
    mget (project f a) 0 i = ddiv (dmul f (mget a 0 i)) (dadd (dabs (mget a 2 i)) f) \<and>
    mget (project f a) 1 i = ddiv (dmul f (mget a 1 i)) (dadd (dabs (mget a 2 i)) f) \<and>
    mget (project f a) 2 i = mget a 2 i \<and>
    mget (project f a) 3 i = mget a 3 i"
proof -
  from assms(1) obtain a00 a01 a02 a10 a11 a12 a20 a21 a22 a30 a31 a32 where
    a: "a = [[a00, a01, a02], [a10, a11, a12], [a20, a21, a22], [a30, a31, a32]]"
    by (rule batch43_obtain)
  from assms(2) consider "i = 0" | "i = 1" | "i = 2"
    by (auto simp: less3)
  then show ?thesis
    by cases (simp_all add: a project_explicit mget_def batch43_def)
qed

text \<open>
  C3. For every vertex batch (four rows, three columns) and every column \<open>i\<close>, project
  replaces the x value and the y value \<open>v\<close> of the column with \<open>zf * v / (|z| + zf)\<close>, where
  \<open>z\<close> is the depth of that column before the call, and leaves the z values (and the fourth
  row) as they were. The formula is the one of the code on every value a double can hold.
\<close>

theorem project_formula:
  assumes "batch43 a" "i < 3"
  shows "batch43 (project f a) \<and>
    mget (project f a) 0 i = ddiv (dmul f (mget a 0 i)) (dadd (dabs (mget a 2 i)) f) \<and>
    mget (project f a) 1 i = ddiv (dmul f (mget a 1 i)) (dadd (dabs (mget a 2 i)) f) \<and>
    mget (project f a) 2 i = mget a 2 i \<and>
    mget (project f a) 3 i = mget a 3 i"
  using assms by (rule project_column)

theorem project_formula_witness:
  "batch43 [[Fin 10, Fin 20, Fin 30], [Fin 1, Fin 2, Fin 3], [Fin (- 1000), Fin 0, Fin 1000],
            [Fin 1, Fin 1, Fin 1]] \<and> (0::nat) < 3 \<and>
   project (Fin 1000) [[Fin 10, Fin 20, Fin 30], [Fin 1, Fin 2, Fin 3],
                       [Fin (- 1000), Fin 0, Fin 1000], [Fin 1, Fin 1, Fin 1]] =
     [[Fin 5, Fin 20, Fin 15], [Fin (1 / 2), Fin 2, Fin (3 / 2)],
      [Fin (- 1000), Fin 0, Fin 1000], [Fin 1, Fin 1, Fin 1]] \<and>
   mget (project (Fin 1000) [[Fin 10, Fin 20, Fin 30], [Fin 1, Fin 2, Fin 3],
                       [Fin (- 1000), Fin 0, Fin 1000], [Fin 1, Fin 1, Fin 1]]) 0 0 = Fin 5 \<and>
   mget (project (Fin 1000) [[Fin 10, Fin 20, Fin 30], [Fin 1, Fin 2, Fin 3],
                       [Fin (- 1000), Fin 0, Fin 1000], [Fin 1, Fin 1, Fin 1]]) 2 0 = Fin (- 1000)"
  using project_formula [of "[[Fin 10, Fin 20, Fin 30], [Fin 1, Fin 2, Fin 3],
      [Fin (- 1000), Fin 0, Fin 1000], [Fin 1, Fin 1, Fin 1]]" 0 "Fin 1000"]
  by (simp add: batch43_def project_explicit mget_def)

subsection \<open>The driver's context\<close>

lemma sqrt_2500: "sqrt 2500 = 50"
proof -
  have "sqrt (50\<^sup>2) = 50" by simp
  then show ?thesis by simp
qed

lemma driver_basis:
  "changeBasisMatrix (transformBasis
      \<lparr> toModelCoordinates = tm, toDeviceCoordinates = td, changeBasisMatrix = matrix_new 4 4,
        hOrbitMatrix = ho, vOrbitMatrix = vo, translateToOrigin = tt,
        translateFromOrigin = tf, p0 = [[Fin 50], [Fin 50], [Fin 0]], pref = pr,
        zf = f, hdeg = h, vdeg = v \<rparr>) =
   emb (Rmat 0 0 (- 1) 0
             (- (50 / sqrt 5000)) (50 / sqrt 5000) 0 0
             (50 / sqrt 5000) (50 / sqrt 5000) 0 (- (5000 / sqrt 5000))
             0 0 0 1)"
  by (simp add: transformBasis_def Let_def matrix_new_44 matrix_new_31 mput_def mget_def
      crossProduct3X1_def normalize_vec_def magnitude_def dot_def dsub_def sqrt_2500)

lemma driver_context_eq:
  "driver_context =
     Inr \<lparr> toModelCoordinates = emb rid,
           toDeviceCoordinates = emb (rtrans 400 400),
           changeBasisMatrix = emb driver_basis_matrix,
           hOrbitMatrix = emb rid, vOrbitMatrix = emb rid,
           translateToOrigin = emb (rtrans (- 400) (- 400)),
           translateFromOrigin = emb (rtrans 400 400),
           p0 = [[Fin 50], [Fin 50], [Fin 0]],
           pref = [[Fin 0], [Fin 0], [Fin 0]],
           zf = Fin 1000, hdeg = Fin 0, vdeg = Fin 0 \<rparr>"
proof -
  define s where "s = createTransformMatricies
     \<lparr> toModelCoordinates = [], toDeviceCoordinates = [], changeBasisMatrix = [],
       hOrbitMatrix = [], vOrbitMatrix = [], translateToOrigin = [],
       translateFromOrigin = [],
       p0 = mput (mput (mput (matrix_new 3 1) 0 0 (of_cint 50)) 1 0 (of_cint 50)) 2 0 (of_cint 0),
       pref = mput (mput (mput (matrix_new 3 1) 0 0 (Fin 0)) 1 0 (Fin 0)) 2 0 (Fin 0),
       zf = Fin 1000, hdeg = Fin 0, vdeg = Fin 0 \<rparr>"
  have s: "s = \<lparr> toModelCoordinates = identity 4, toDeviceCoordinates = identity 4,
       changeBasisMatrix = matrix_new 4 4,
       hOrbitMatrix = identity 4, vOrbitMatrix = identity 4, translateToOrigin = matrix_new 4 4,
       translateFromOrigin = matrix_new 4 4,
       p0 = [[Fin 50], [Fin 50], [Fin 0]],
       pref = [[Fin 0], [Fin 0], [Fin 0]],
       zf = Fin 1000, hdeg = Fin 0, vdeg = Fin 0 \<rparr>"
    by (simp add: s_def createTransformMatricies_eq of_cint_def matrix_new_31 mput_def)
  have t: "transformBasis s = s\<lparr> changeBasisMatrix := emb driver_basis_matrix \<rparr>"
  proof -
    have "transformBasis s = s\<lparr> changeBasisMatrix := changeBasisMatrix (transformBasis s) \<rparr>"
      by (simp add: transformBasis_def Let_def)
    also have "changeBasisMatrix (transformBasis s) = emb driver_basis_matrix"
      unfolding s driver_basis_matrix_def by (rule driver_basis)
    finally show ?thesis .
  qed
  have "driver_context = originToCenter (of_cint 400) (of_cint 400) (transformBasis s)"
    by (simp add: driver_context_def ViewContext_ctor_def Let_def s_def)
  also have "\<dots> = Inr \<lparr> toModelCoordinates = emb rid,
           toDeviceCoordinates = emb (rtrans 400 400),
           changeBasisMatrix = emb driver_basis_matrix,
           hOrbitMatrix = emb rid, vOrbitMatrix = emb rid,
           translateToOrigin = emb (rtrans (- 400) (- 400)),
           translateFromOrigin = emb (rtrans 400 400),
           p0 = [[Fin 50], [Fin 50], [Fin 0]],
           pref = [[Fin 0], [Fin 0], [Fin 0]],
           zf = Fin 1000, hdeg = Fin 0, vdeg = Fin 0 \<rparr>"
    unfolding t by (simp add: s of_cint_def originToCenter_eq identity_emb)
  finally show ?thesis .
qed

text \<open>One column of the product of a finite 4 by 4 matrix and a batch.\<close>

lemma mmul_emb_batch:
  "mmul (emb (Rmat a00 a01 a02 a03 a10 a11 a12 a13 a20 a21 a22 a23 a30 a31 a32 a33))
        [[b00, b01, b02], [b10, b11, b12], [b20, b21, b22], [b30, b31, b32]] =
   Inr (map (\<lambda>(p, q, r, s). map (\<lambda>(x, y, z, w).
          dadd (dadd (dadd (dadd (Fin 0) (dmul (Fin p) x)) (dmul (Fin q) y)) (dmul (Fin r) z)) (dmul (Fin s) w))
          [(b00, b10, b20, b30), (b01, b11, b21, b31), (b02, b12, b22, b32)])
        [(a00, a01, a02, a03), (a10, a11, a12, a13), (a20, a21, a22, a23), (a30, a31, a32, a33)])"
  by (simp add: mmul_def ncols_def nrows_def upt4 upt3 dsum_def mget_def)

lemma mmul_emb_column:
  assumes "batch43 b" "j < 3"
    "mget b 0 j = Fin x" "mget b 1 j = Fin y" "mget b 2 j = Fin z" "mget b 3 j = Fin w"
  shows "\<exists>c. mmul (emb (Rmat a00 a01 a02 a03 a10 a11 a12 a13 a20 a21 a22 a23 a30 a31 a32 a33)) b = Inr c \<and>
     batch43 c \<and>
     mget c 0 j = Fin (a00 * x + a01 * y + a02 * z + a03 * w) \<and>
     mget c 1 j = Fin (a10 * x + a11 * y + a12 * z + a13 * w) \<and>
     mget c 2 j = Fin (a20 * x + a21 * y + a22 * z + a23 * w) \<and>
     mget c 3 j = Fin (a30 * x + a31 * y + a32 * z + a33 * w)"
proof -
  from assms(1) obtain b00 b01 b02 b10 b11 b12 b20 b21 b22 b30 b31 b32 where
    b: "b = [[b00, b01, b02], [b10, b11, b12], [b20, b21, b22], [b30, b31, b32]]"
    by (rule batch43_obtain)
  from assms(2) consider "j = 0" | "j = 1" | "j = 2"
    by (auto simp: less3)
  then show ?thesis
    using assms(3-6) by cases (simp_all add: b mmul_emb_batch mget_def batch43_def del: emb.simps)
qed

lemma driver_context_fields:
  "\<exists>s. driver_context = Inr s \<and> well_formed s \<and>
     toModelCoordinates s = emb rid \<and>
     toDeviceCoordinates s = emb (rtrans 400 400) \<and>
     changeBasisMatrix s = emb driver_basis_matrix \<and>
     hOrbitMatrix s = emb rid \<and> vOrbitMatrix s = emb rid \<and>
     translateToOrigin s = emb (rtrans (- 400) (- 400)) \<and>
     translateFromOrigin s = emb (rtrans 400 400) \<and>
     p0 s = [[Fin 50], [Fin 50], [Fin 0]] \<and>
     zf s = Fin 1000 \<and> hdeg s = Fin 0 \<and> vdeg s = Fin 0"
  by (simp add: driver_context_eq well_formed_def dim44_emb pivot_pair_emb)

text \<open>
  C2. In the context the driver constructs (eye (50, 50, 0), screen centre (400, 400), field
  of view 1000) and with no mutator called, modelToDevice returns, and a column of the batch
  that holds the model origin (0, 0, 0) with the homogeneous coordinate 1 comes out with
  x = 400 and y = 400, whatever the other columns hold.
\<close>

theorem origin_maps_to_screen_centre:
  assumes "batch43 V" "j < 3"
    "mget V 0 j = Fin 0" "mget V 1 j = Fin 0" "mget V 2 j = Fin 0" "mget V 3 j = Fin 1"
  shows "\<exists>s D. driver_context = Inr s \<and> modelToDevice s V = Inr D \<and>
     mget D 0 j = Fin 400 \<and> mget D 1 j = Fin 400"
proof -
  obtain d1 where d1: "mmul (emb rid) V = Inr d1" "batch43 d1"
    "mget d1 0 j = Fin 0" "mget d1 1 j = Fin 0" "mget d1 2 j = Fin 0" "mget d1 3 j = Fin 1"
    using mmul_emb_column [OF assms, of 1 0 0 0 0 1 0 0 0 0 1 0 0 0 0 1]
    by (auto simp: rid_def)
  obtain d2 where d2: "mmul (emb rid) d1 = Inr d2" "batch43 d2"
    "mget d2 0 j = Fin 0" "mget d2 1 j = Fin 0" "mget d2 2 j = Fin 0" "mget d2 3 j = Fin 1"
    using mmul_emb_column [OF d1(2) assms(2) d1(3-6), of 1 0 0 0 0 1 0 0 0 0 1 0 0 0 0 1]
    by (auto simp: rid_def)
  obtain d3 where d3: "mmul (emb driver_basis_matrix) d2 = Inr d3" "batch43 d3"
    "mget d3 0 j = Fin 0" "mget d3 1 j = Fin 0" "mget d3 2 j = Fin (- (5000 / sqrt 5000))"
    "mget d3 3 j = Fin 1"
    using mmul_emb_column [OF d2(2) assms(2) d2(3-6), of 0 0 "- 1" 0
             "- (50 / sqrt 5000)" "50 / sqrt 5000" 0 0
             "50 / sqrt 5000" "50 / sqrt 5000" 0 "- (5000 / sqrt 5000)"
             0 0 0 1]
    by (auto simp: driver_basis_matrix_def)
  define d4 where "d4 = project (Fin 1000) d3"
  have nz: "\<bar>5000 / sqrt 5000\<bar> + 1000 \<noteq> (0::real)"
    by arith
  have d4: "batch43 d4" "mget d4 0 j = Fin 0" "mget d4 1 j = Fin 0"
    "mget d4 2 j = Fin (- (5000 / sqrt 5000))" "mget d4 3 j = Fin 1"
    using project_column [OF d3(2) assms(2), of "Fin 1000"] nz d3(3-6)
    by (simp_all add: d4_def)
  obtain D where D: "mmul (emb (rtrans 400 400)) d4 = Inr D"
    "mget D 0 j = Fin 400" "mget D 1 j = Fin 400"
    using mmul_emb_column [OF d4(1) assms(2) d4(2-5), of 1 0 0 400 0 1 0 400 0 0 1 0 0 0 0 1]
    by (auto simp: rtrans_def)
  obtain s where s: "driver_context = Inr s" "hOrbitMatrix s = emb rid"
    "vOrbitMatrix s = emb rid" "changeBasisMatrix s = emb driver_basis_matrix"
    "toDeviceCoordinates s = emb (rtrans 400 400)" "zf s = Fin 1000"
    using driver_context_fields by blast
  have "modelToDevice s V = Inr D"
    by (simp add: modelToDevice_def Let_def mmul_into_def s d1(1) d2(1) d3(1) D(1)
        d4_def [symmetric])
  with s(1) D(2,3) show ?thesis
    by blast
qed

theorem origin_maps_to_screen_centre_witness:
  "batch43 [[Fin 0, Fin 100, Fin 0], [Fin 0, Fin 0, Fin 100], [Fin 0, Fin 0, Fin 0],
            [Fin 1, Fin 1, Fin 1]] \<and>
   (\<exists>s D. driver_context = Inr s \<and>
      modelToDevice s [[Fin 0, Fin 100, Fin 0], [Fin 0, Fin 0, Fin 100], [Fin 0, Fin 0, Fin 0],
            [Fin 1, Fin 1, Fin 1]] = Inr D \<and>
      mget D 0 0 = Fin 400 \<and> mget D 1 0 = Fin 400)"
  using origin_maps_to_screen_centre [of "[[Fin 0, Fin 100, Fin 0], [Fin 0, Fin 0, Fin 100],
      [Fin 0, Fin 0, Fin 0], [Fin 1, Fin 1, Fin 1]]" 0]
  by (simp add: batch43_def mget_def)

subsection \<open>Arithmetic with the special values\<close>

lemmas mmul_eval = mmul_def mmul_then_def ncols_def nrows_def upt4 dsum_def mget_def

lemma dadd_zero_left: "dadd (Fin 0) x = x"
  by (cases x) simp_all

lemma dadd_zero_right: "dadd x (Fin 0) = x"
  by (cases x) simp_all

lemma dmul_one_right: "dmul x (Fin 1) = x"
  by (cases x) simp_all

lemma dmul_one_left: "dmul (Fin 1) x = x"
  by (cases x) simp_all

lemma dmul_NaN_right: "dmul x NaN = NaN"
  by (cases x) simp_all

lemma dadd_NaN_right: "dadd x NaN = NaN"
  by (cases x) simp_all

lemma ddiv_NaN_right: "ddiv x NaN = NaN"
  by (cases x) simp_all

lemmas nan_simps = dmul_NaN_right dadd_NaN_right ddiv_NaN_right dadd_zero_left dadd_zero_right
  dmul_one_right dmul_one_left

lemma not_fin_dadd_left: "\<not> is_fin x \<Longrightarrow> is_fin (dadd x y) = False"
  by (cases x; cases y) simp_all

lemma not_fin_dadd_right: "\<not> is_fin y \<Longrightarrow> is_fin (dadd x y) = False"
  by (cases x; cases y) simp_all

lemma not_fin_dmul_inf: "is_fin (dmul (Fin h) PInf) = False"
  by (cases "0 < h") simp_all

lemma fin44_entry:
  assumes "fin44 m" "i < 4" "j < 4"
  shows "is_fin (mget m i j)"
  using assms by (simp add: fin44_def mget_def list_all_length)

lemma ctor_fields:
  "\<exists>s. ViewContext_ctor x0 y0 z0 x y f = Inr s \<and> well_formed s \<and>
     toModelCoordinates s = identity 4 \<and>
     toDeviceCoordinates s = translation (of_cint x) (of_cint y) \<and>
     hOrbitMatrix s = identity 4 \<and> vOrbitMatrix s = identity 4 \<and>
     p0 s = [[of_cint x0], [of_cint y0], [of_cint z0]] \<and>
     zf s = f \<and> hdeg s = Fin 0 \<and> vdeg s = Fin 0"
proof -
  obtain c where c: "dim44 c" and
    "ViewContext_ctor x0 y0 z0 x y f =
     Inr \<lparr> toModelCoordinates = emb rid,
           toDeviceCoordinates = emb (rtrans (of_int x) (of_int y)),
           changeBasisMatrix = c,
           hOrbitMatrix = emb rid, vOrbitMatrix = emb rid,
           translateToOrigin = emb (rtrans (- of_int x) (- of_int y)),
           translateFromOrigin = emb (rtrans (of_int x) (of_int y)),
           p0 = [[of_cint x0], [of_cint y0], [of_cint z0]],
           pref = [[Fin 0], [Fin 0], [Fin 0]],
           zf = f, hdeg = Fin 0, vdeg = Fin 0 \<rparr>"
    using ViewContext_ctor_eq [of x0 y0 z0 x y f] by blast
  then show ?thesis
    by (simp add: well_formed_def dim44_emb pivot_pair_emb identity_emb translation_emb of_cint_def)
qed

subsection \<open>The screen edits and their undo\<close>


lemma apply_edit_products:
  assumes "well_formed s" "dim44 e" "dim44 u"
  shows "\<exists>d m. apply_edit e u s = Inr (s\<lparr> toDeviceCoordinates := d, toModelCoordinates := m \<rparr>) \<and>
     mmul_then (mmul_then (mmul (translateFromOrigin s) e) (translateToOrigin s))
       (toDeviceCoordinates s) = Inr d \<and>
     mmul_then (mmul_then (mmul (toModelCoordinates s) (translateFromOrigin s)) u)
       (translateToOrigin s) = Inr m"
proof -
  obtain d m where "apply_edit e u s = Inr (s\<lparr> toDeviceCoordinates := d, toModelCoordinates := m \<rparr>)"
    using apply_edit_dims [OF assms] by blast
  then show ?thesis
    by (auto simp: apply_edit_def split: sum.splits)
qed

lemma scale_matrices:
  "mput (mput (mput (mput (matrix_new 4 4) 0 0 a) (Suc 0) (Suc 0) b) 2 2 (Fin 1)) 3 3 (Fin 1) = scaling a b"
  by (simp add: matrix_new_44 mput_def scaling_def)

lemma scale_eq:
  "scale a b s = apply_edit (scaling a b) (scaling (ddiv (Fin 1) a) (ddiv (Fin 1) b)) s"
  by (simp add: scale_def Let_def scale_matrices)


lemma dim44_scaling: "dim44 (scaling a b)"
  by (simp add: scaling_def dim44_def)












lemma scaled_inverse_entries:
  "\<exists>m. mmul_then (mmul (emb (Rmat h00 h01 h02 h03 h10 h11 h12 h13 h20 h21 h22 h23 h30 h31 h32 h33))
          (scaling u0 u1)) (emb (rtrans x y)) = Inr m \<and>
     mget m 0 0 = dadd (dmul (Fin h00) u0) (dmul (dmul (Fin h01) u1) (Fin 0)) \<and>
     mget m 0 1 = dadd (dmul (dmul (Fin h00) u0) (Fin 0)) (dmul (Fin h01) u1)"
  by (simp add: scaling_def rtrans_def mmul_eval dadd_zero_left dadd_zero_right dmul_one_right)

lemma scaled_inverse_not_finite:
  assumes "u0 = PInf \<or> u1 = PInf"
  shows "\<exists>m. mmul_then (mmul (emb H) (scaling u0 u1)) (emb (rtrans x y)) = Inr m \<and> \<not> fin44 m"
proof (cases H)
  case (Rmat h00 h01 h02 h03 h10 h11 h12 h13 h20 h21 h22 h23 h30 h31 h32 h33)
  obtain m where m: "mmul_then (mmul (emb H) (scaling u0 u1)) (emb (rtrans x y)) = Inr m"
     "mget m 0 0 = dadd (dmul (Fin h00) u0) (dmul (dmul (Fin h01) u1) (Fin 0))"
     "mget m 0 1 = dadd (dmul (dmul (Fin h00) u0) (Fin 0)) (dmul (Fin h01) u1)"
    unfolding Rmat
    using scaled_inverse_entries
      [of h00 h01 h02 h03 h10 h11 h12 h13 h20 h21 h22 h23 h30 h31 h32 h33 u0 u1 x y]
    by blast
  have "\<not> fin44 m"
  proof
    assume f: "fin44 m"
    have a: "is_fin (mget m 0 0)"
      by (rule fin44_entry [OF f]) simp_all
    have b: "is_fin (mget m 0 1)"
      by (rule fin44_entry [OF f]) simp_all
    from assms show False
    proof
      assume "u0 = PInf"
      with a show False
        unfolding m(2) by (simp add: not_fin_dadd_left not_fin_dmul_inf del: dmul.simps)
    next
      assume "u1 = PInf"
      with b show False
        unfolding m(3) by (simp add: not_fin_dadd_right not_fin_dmul_inf del: dmul.simps)
    qed
  qed
  with m(1) show ?thesis by blast
qed

text \<open>
  C4 (as amended). scale checks nothing: with a factor of zero it returns normally on every
  well-formed context, toDeviceCoordinates becomes
  translateFromOrigin * scaling(a, b) * translateToOrigin * toDeviceCoordinates, and
  toModelCoordinates, multiplied by a matrix that holds 1/0, is left with entries that are
  not finite numbers.
\<close>

theorem scale_zero_unchecked:
  assumes "well_formed s" "fin44 (toModelCoordinates s)" "a = Fin 0 \<or> b = Fin 0"
  shows "\<exists>s'. scale a b s = Inr s' \<and>
     mmul_then (mmul_then (mmul (translateFromOrigin s) (scaling a b)) (translateToOrigin s))
       (toDeviceCoordinates s) = Inr (toDeviceCoordinates s') \<and>
     \<not> fin44 (toModelCoordinates s')"
proof -
  obtain d m where dm:
    "scale a b s = Inr (s\<lparr> toDeviceCoordinates := d, toModelCoordinates := m \<rparr>)"
    "mmul_then (mmul_then (mmul (translateFromOrigin s) (scaling a b)) (translateToOrigin s))
       (toDeviceCoordinates s) = Inr d"
    "mmul_then (mmul_then (mmul (toModelCoordinates s) (translateFromOrigin s))
       (scaling (ddiv (Fin 1) a) (ddiv (Fin 1) b))) (translateToOrigin s) = Inr m"
    using apply_edit_products [OF assms(1) dim44_scaling dim44_scaling]
    unfolding scale_eq by blast
  from assms(2) obtain G where g: "toModelCoordinates s = emb G"
    by (auto dest: fin44_obtain)
  from assms(1) obtain x y where p: "translateFromOrigin s = emb (rtrans x y)"
    "translateToOrigin s = emb (rtrans (- x) (- y))"
    by (auto simp: well_formed_def elim: pivot_pair_obtain)
  from assms(3) have "ddiv (Fin 1) a = PInf \<or> ddiv (Fin 1) b = PInf"
    by auto
  from scaled_inverse_not_finite [OF this, of "rmul G (rtrans x y)" "- x" "- y"] dm(3)
  have "\<not> fin44 m"
    by (simp add: g p mmul_emb mmul_then_def)
  with dm show ?thesis by simp
qed

theorem scale_zero_unchecked_witness:
  "\<exists>s. driver_context = Inr s \<and> well_formed s \<and> fin44 (toModelCoordinates s) \<and>
     (\<exists>s'. scale (Fin 0) (Fin 1) s = Inr s' \<and>
       mmul_then (mmul_then (mmul (translateFromOrigin s) (scaling (Fin 0) (Fin 1)))
         (translateToOrigin s)) (toDeviceCoordinates s) = Inr (toDeviceCoordinates s') \<and>
       \<not> fin44 (toModelCoordinates s'))"
proof -
  obtain s where s: "driver_context = Inr s" "well_formed s" "toModelCoordinates s = emb rid"
    using driver_context_fields by blast
  have "fin44 (toModelCoordinates s)"
    by (simp add: s(3) fin44_emb)
  with scale_zero_unchecked [OF s(2) this, of "Fin 0" "Fin 1"] s(1,2) show ?thesis
    by blast
qed

theorem scale_zero_counterexample:
  "\<not> isl driver_context \<and>
   \<not> isl (scale (Fin 0) (Fin 1) (projr driver_context)) \<and>
   toDeviceCoordinates (projr (scale (Fin 0) (Fin 1) (projr driver_context))) \<noteq>
     toDeviceCoordinates (projr driver_context) \<and>
   toModelCoordinates (projr (scale (Fin 0) (Fin 1) (projr driver_context))) \<noteq>
     toModelCoordinates (projr driver_context)"
  by (simp add: driver_context_eq scale_eq apply_edit_def scaling_def rtrans_def rid_def mmul_eval)



subsection \<open>The orbits\<close>




















lemma vOrbit_degenerate:
  assumes "mget (p0 s) 0 0 = Fin 0" "mget (p0 s) 2 0 = Fin 0"
  shows "\<exists>r1 r3. vOrbit d s =
     Inr (s\<lparr> vdeg := dadd (vdeg s) (dmul d (ddiv (Fin PI) (Fin 180))),
            vOrbitMatrix := [[NaN, NaN, NaN, NaN], r1, [NaN, NaN, NaN, NaN], r3] \<rparr>)"
proof -
  obtain z where z: "vOrbit d s =
      Inr (s\<lparr> vdeg := dadd (vdeg s) (dmul d (ddiv (Fin PI) (Fin 180))), vOrbitMatrix := z \<rparr>)"
    using vOrbit_returns by blast
  have "\<exists>r1 r3. vOrbitMatrix (projr (vOrbit d s)) =
      [[NaN, NaN, NaN, NaN], r1, [NaN, NaN, NaN, NaN], r3]"
    using assms
    by (simp add: vOrbit_def Let_def identity_4 matrix_new_31 mput_def crossProduct3X1_def dsub_def
        mmul_eval nan_simps)
  then show ?thesis
    by (auto simp: z)
qed

lemma mmul_NaN_rows:
  assumes "batch43 b"
  shows "\<exists>x1 x3. mmul [[NaN, NaN, NaN, NaN], r1, [NaN, NaN, NaN, NaN], r3] b =
     Inr [[NaN, NaN, NaN], x1, [NaN, NaN, NaN], x3] \<and> length x1 = 3 \<and> length x3 = 3"
proof -
  from assms obtain b00 b01 b02 b10 b11 b12 b20 b21 b22 b30 b31 b32 where
    "b = [[b00, b01, b02], [b10, b11, b12], [b20, b21, b22], [b30, b31, b32]]"
    by (rule batch43_obtain)
  then show ?thesis
    by (simp add: mmul_eval upt3)
qed

lemma mmul_NaN_row_all:
  assumes "dim44 a" "length x1 = 3" "length x3 = 3"
  shows "mmul a [[NaN, NaN, NaN], x1, r2, x3] = Inr all_NaN"
proof -
  from assms(1) obtain a00 a01 a02 a03 a10 a11 a12 a13 a20 a21 a22 a23 a30 a31 a32 a33 where
    "a = [[a00, a01, a02, a03], [a10, a11, a12, a13], [a20, a21, a22, a23], [a30, a31, a32, a33]]"
    by (rule dim44_obtain)
  moreover from assms(2) obtain p q r where "x1 = [p, q, r]" by (auto simp: len3)
  ultimately show ?thesis
    by (simp add: mmul_eval upt3 nan_simps all_NaN_def)
qed

lemma project_all_NaN: "project f all_NaN = all_NaN"
  by (simp add: all_NaN_def project_explicit nan_simps)

lemma mmul_all_NaN:
  assumes "dim44 a"
  shows "mmul a all_NaN = Inr all_NaN"
  using mmul_NaN_row_all [OF assms, of "[NaN, NaN, NaN]" "[NaN, NaN, NaN]" "[NaN, NaN, NaN]"]
  by (simp add: all_NaN_def)

text \<open>
  C8 (as amended). vOrbit checks nothing: when the x and z coordinates of the eye are both
  zero (the eye directly above the target) the call returns normally, the rows 0 and 2 of
  vOrbitMatrix are not-a-number throughout, and from then on every coordinate of every
  vertex that modelToDevice returns is not-a-number.
\<close>

theorem vOrbit_above_target:
  assumes "well_formed s" "mget (p0 s) 0 0 = Fin 0" "mget (p0 s) 2 0 = Fin 0"
  shows "\<exists>s'. vOrbit d s = Inr s' \<and>
     vOrbitMatrix s' ! 0 = [NaN, NaN, NaN, NaN] \<and>
     vOrbitMatrix s' ! 2 = [NaN, NaN, NaN, NaN] \<and>
     (\<forall>V. batch43 V \<longrightarrow> modelToDevice s' V = Inr all_NaN)"
proof -
  obtain r1 r3 where v: "vOrbit d s =
     Inr (s\<lparr> vdeg := dadd (vdeg s) (dmul d (ddiv (Fin PI) (Fin 180))),
            vOrbitMatrix := [[NaN, NaN, NaN, NaN], r1, [NaN, NaN, NaN, NaN], r3] \<rparr>)"
    using vOrbit_degenerate [OF assms(2,3)] by blast
  define s' where "s' = s\<lparr> vdeg := dadd (vdeg s) (dmul d (ddiv (Fin PI) (Fin 180))),
            vOrbitMatrix := [[NaN, NaN, NaN, NaN], r1, [NaN, NaN, NaN, NaN], r3] \<rparr>"
  have "modelToDevice s' V = Inr all_NaN" if V: "batch43 V" for V
  proof -
    from assms(1) have dims: "dim44 (hOrbitMatrix s)" "dim44 (changeBasisMatrix s)"
      "dim44 (toDeviceCoordinates s)"
      by (simp_all add: well_formed_def)
    obtain b00 b01 b02 b10 b11 b12 b20 b21 b22 b30 b31 b32 where
      Ve: "V = [[b00, b01, b02], [b10, b11, b12], [b20, b21, b22], [b30, b31, b32]]"
      using V by (rule batch43_obtain)
    obtain a00 a01 a02 a03 a10 a11 a12 a13 a20 a21 a22 a23 a30 a31 a32 a33 where
      h: "hOrbitMatrix s =
        [[a00, a01, a02, a03], [a10, a11, a12, a13], [a20, a21, a22, a23], [a30, a31, a32, a33]]"
      using dims(1) by (rule dim44_obtain)
    obtain d1 where d1: "mmul (hOrbitMatrix s) V = Inr d1" "batch43 d1"
      by (simp add: h Ve mmul_eval upt3 batch43_def)
    obtain x1 x3 where d2: "mmul [[NaN, NaN, NaN, NaN], r1, [NaN, NaN, NaN, NaN], r3] d1 =
       Inr [[NaN, NaN, NaN], x1, [NaN, NaN, NaN], x3]" "length x1 = 3" "length x3 = 3"
      using mmul_NaN_rows [OF d1(2)] by blast
    show ?thesis
      by (simp add: modelToDevice_def Let_def mmul_into_def s'_def d1(1) d2(1)
          mmul_NaN_row_all [OF dims(2) d2(2,3)] project_all_NaN mmul_all_NaN [OF dims(3)])
  qed
  then show ?thesis
    by (simp add: v s'_def [symmetric]) (simp add: s'_def)
qed

theorem vOrbit_above_target_witness:
  "\<exists>s. ViewContext_ctor 0 50 0 400 400 (Fin 1000) = Inr s \<and> well_formed s \<and>
     mget (p0 s) 0 0 = Fin 0 \<and> mget (p0 s) 2 0 = Fin 0 \<and>
     (\<exists>s'. vOrbit (Fin 10) s = Inr s' \<and>
       vOrbitMatrix s' ! 0 = [NaN, NaN, NaN, NaN] \<and>
       vOrbitMatrix s' ! 2 = [NaN, NaN, NaN, NaN] \<and>
       (\<forall>V. batch43 V \<longrightarrow> modelToDevice s' V = Inr all_NaN))"
proof -
  obtain s where s: "ViewContext_ctor 0 50 0 400 400 (Fin 1000) = Inr s" "well_formed s"
    "p0 s = [[of_cint 0], [of_cint 50], [of_cint 0]]"
    using ctor_fields [of 0 50 0 400 400 "Fin 1000"] by blast
  have p: "mget (p0 s) 0 0 = Fin 0" "mget (p0 s) 2 0 = Fin 0"
    by (simp_all add: s(3) mget_def of_cint_def)
  from vOrbit_above_target [OF s(2) p, of "Fin 10"] s(1,2) p show ?thesis
    by blast
qed

theorem vOrbit_above_target_counterexample:
  "\<not> isl (ViewContext_ctor 0 50 0 400 400 (Fin 1000)) \<and>
   \<not> isl (vOrbit (Fin 10) (projr (ViewContext_ctor 0 50 0 400 400 (Fin 1000)))) \<and>
   mget (vOrbitMatrix (projr (vOrbit (Fin 10) (projr (ViewContext_ctor 0 50 0 400 400 (Fin 1000))))))
      0 0 = NaN"
proof -
  obtain s where s: "ViewContext_ctor 0 50 0 400 400 (Fin 1000) = Inr s"
    "p0 s = [[of_cint 0], [of_cint 50], [of_cint 0]]"
    using ctor_fields [of 0 50 0 400 400 "Fin 1000"] by blast
  have p: "mget (p0 s) 0 0 = Fin 0" "mget (p0 s) 2 0 = Fin 0"
    by (simp_all add: s(2) mget_def of_cint_def)
  from vOrbit_degenerate [OF p, of "Fin 10"] show ?thesis
    by (auto simp: s(1) mget_def)
qed

lemma vOrbit_nondegenerate:
  assumes "mget (p0 s) 0 0 = Fin a" "mget (p0 s) 2 0 = Fin b" "a \<noteq> 0 \<or> b \<noteq> 0" "vdeg s = Fin v"
  shows "vOrbit (Fin d) s =
    Inr (s\<lparr> vdeg := Fin (v + d * (PI / 180)),
           vOrbitMatrix := emb (rmul (rmul
             (Rmat (a / sqrt (b * b + a * a)) 0 (b / sqrt (b * b + a * a)) 0
                   0 1 0 0
                   (- (b / sqrt (b * b + a * a))) 0 (a / sqrt (b * b + a * a)) 0
                   0 0 0 1)
             (Rmat (cos (v + d * (PI / 180))) (- sin (v + d * (PI / 180))) 0 0
                   (sin (v + d * (PI / 180))) (cos (v + d * (PI / 180))) 0 0
                   0 0 1 0
                   0 0 0 1))
             (Rmat (a / sqrt (b * b + a * a)) 0 (- (b / sqrt (b * b + a * a))) 0
                   0 1 0 0
                   (- (b / sqrt (b * b + a * a))) 0 (- (a / sqrt (b * b + a * a))) 0
                   0 0 0 1)) \<rparr>)"
proof -
  have pos: "0 < b * b + a * a"
    using assms(3) by (auto simp: sum_squares_gt_zero_iff)
  have nz: "sqrt (b * b + a * a) \<noteq> 0" "\<not> b * b + a * a < 0"
    using pos assms(3) by auto
  show ?thesis
    using assms(1,2,4) nz
    by (simp add: vOrbit_def Let_def identity_4 matrix_new_31 mput_def crossProduct3X1_def dsub_def
        mmul_eval)
qed

lemma det3_rmul:
  "det3 (rmul (Rmat a00 a01 a02 0 a10 a11 a12 0 a20 a21 a22 0 a30 a31 a32 a33) B) =
   det3 (Rmat a00 a01 a02 0 a10 a11 a12 0 a20 a21 a22 0 a30 a31 a32 a33) * det3 B"
  by (cases B) (simp add: algebra_simps)

lemma unit_ground_axis:
  assumes "a \<noteq> 0 \<or> b \<noteq> 0"
  shows "(a / sqrt (b * b + a * a)) * (a / sqrt (b * b + a * a)) +
         (b / sqrt (b * b + a * a)) * (b / sqrt (b * b + a * a)) = 1"
proof -
  have pos: "0 < b * b + a * a"
    using assms by (auto simp: sum_squares_gt_zero_iff)
  define n where "n = b * b + a * a"
  have n: "0 < n" "sqrt n * sqrt n = n"
    using pos by (simp_all add: n_def)
  have "(a / sqrt n) * (a / sqrt n) + (b / sqrt n) * (b / sqrt n) =
        (a * a + b * b) / (sqrt n * sqrt n)"
    by (simp add: add_divide_distrib)
  also have "\<dots> = n / n"
    by (simp only: n(2)) (simp add: n_def)
  also have "\<dots> = 1"
    using n(1) by simp
  finally show ?thesis
    by (simp only: n_def)
qed

lemma det3_conjugation:
  "det3 (rmul (rmul (Rmat p 0 q 0  0 1 0 0  (- q) 0 p 0  0 0 0 1)
           (Rmat c (- z) 0 0  z c 0 0  0 0 1 0  0 0 0 1))
           (Rmat p 0 (- q) 0  0 1 0 0  (- q) 0 (- p) 0  0 0 0 1)) =
        (p * p + q * q) * (c * c + z * z) * (- (p * p + q * q))"
  by (simp add: algebra_simps)

lemma vOrbit_reverses_orientation:
  assumes "mget (p0 s) 0 0 = Fin a" "mget (p0 s) 2 0 = Fin b" "a \<noteq> 0 \<or> b \<noteq> 0" "vdeg s = Fin v"
  shows "\<exists>s' R. vOrbit (Fin d) s = Inr s' \<and> vOrbitMatrix s' = emb R \<and> det3 R = - 1"
proof -
  define p where "p = a / sqrt (b * b + a * a)"
  define q where "q = b / sqrt (b * b + a * a)"
  define w where "w = v + d * (PI / 180)"
  define R where "R = rmul (rmul (Rmat p 0 q 0  0 1 0 0  (- q) 0 p 0  0 0 0 1)
           (Rmat (cos w) (- sin w) 0 0  (sin w) (cos w) 0 0  0 0 1 0  0 0 0 1))
           (Rmat p 0 (- q) 0  0 1 0 0  (- q) 0 (- p) 0  0 0 0 1)"
  have u: "p * p + q * q = 1"
    unfolding p_def q_def by (rule unit_ground_axis [OF assms(3)])
  have "det3 R = (p * p + q * q) * (cos w * cos w + sin w * sin w) * (- (p * p + q * q))"
    unfolding R_def by (rule det3_conjugation)
  also have "\<dots> = - 1"
    by (simp add: u)
  finally have d: "det3 R = - 1" .
  have "vOrbit (Fin d) s = Inr (s\<lparr> vdeg := Fin w, vOrbitMatrix := emb R \<rparr>)"
    unfolding R_def p_def q_def w_def by (rule vOrbit_nondegenerate [OF assms])
  then show ?thesis
    using d by (intro exI [of _ "s\<lparr> vdeg := Fin w, vOrbitMatrix := emb R \<rparr>"] exI [of _ R]) simp
qed

text \<open>
  C5 (the code at the failing input). In the driver's context, whose orbit axis
  groundDir x up is (0, 0, 50) and so not degenerate, vOrbit(0) returns with the cumulative
  angle 0 and vOrbitMatrix = diag(1, 1, -1, 1): the matrix "rotate from z" is a reflection
  and not the inverse of "rotate to z", so the product is not the rotation by the
  cumulative angle (the identity, here) but mirrors the depth axis. For every eye off the
  vertical axis and every angle the linear part of vOrbitMatrix has the determinant -1
  (vOrbit_reverses_orientation above), so it is never a rotation.
\<close>

theorem vOrbit_mirrors_depth:
  "\<not> isl driver_context \<and>
   \<not> isl (vOrbit (Fin 0) (projr driver_context)) \<and>
   vdeg (projr (vOrbit (Fin 0) (projr driver_context))) = Fin 0 \<and>
   vOrbitMatrix (projr (vOrbit (Fin 0) (projr driver_context))) =
     [[Fin 1, Fin 0, Fin 0, Fin 0],
      [Fin 0, Fin 1, Fin 0, Fin 0],
      [Fin 0, Fin 0, Fin (- 1), Fin 0],
      [Fin 0, Fin 0, Fin 0, Fin 1]] \<and>
   vOrbitMatrix (projr (vOrbit (Fin 0) (projr driver_context))) \<noteq> identity 4"
  by (simp add: driver_context_eq vOrbit_def Let_def identity_4 matrix_new_31 mput_def
      crossProduct3X1_def dsub_def mmul_eval sqrt_2500)

end
